theory Spec2Isabelle
  imports Main "HOL-Library.AList"
begin

unbundle bit_operations_syntax

section \<open>JavaScript values and objects\<close>

text \<open>
  The gateway (src/index.js and its later revision, which adds the identifier to the path of
  PUT and a DELETE route for documents) handles each request with plain JavaScript objects:
  the parsed JSON request body, the documents returned by the database driver, and the object
  literals built from them. Values are modelled by the datatype below. Numbers are the
  integers and the two infinities (JSON bodies with fractions or exponents are outside the
  model; NaN, where it can arise, is kept outside the values), strings are
  lists of 8-bit characters read as the code points U+0000 to U+00FF, and \<open>JOid\<close> is a
  driver \<open>ObjectId\<close> holding its 24 hexadecimal characters. An object is the list of its own
  enumerable properties in the order JavaScript enumerates them.
\<close>

datatype jsval =
    JUndefined
  | JNull
  | JBool bool
  | JNum int
  | JInfinity
  | JMinusInfinity
  | JStr string
  | JOid string
  | JArr "jsval list"
  | JObj "(string \<times> jsval) list"

type_synonym obj = "(string \<times> jsval) list"

datatype js_error = TypeError | RangeError | SyntaxError | URIError | BSONError | MongoError

text \<open>Truthiness, as tested by \<open>!x\<close>, \<open>x ? a : b\<close> and \<open>x || y\<close>.\<close>

fun truthy :: "jsval \<Rightarrow> bool" where
  "truthy JUndefined = False"
| "truthy JNull = False"
| "truthy (JBool b) = b"
| "truthy (JNum n) = (n \<noteq> 0)"
| "truthy JInfinity = True"
| "truthy JMinusInfinity = True"
| "truthy (JStr s) = (s \<noteq> [])"
| "truthy (JOid h) = True"
| "truthy (JArr vs) = True"
| "truthy (JObj ps) = True"

definition js_or :: "jsval \<Rightarrow> jsval \<Rightarrow> jsval" where
  "js_or a b = (if truthy a then a else b)"

text \<open>Reading an own property: \<open>o.k\<close> is \<open>undefined\<close> when the object has no such key.\<close>

definition get_prop :: "obj \<Rightarrow> string \<Rightarrow> jsval" where
  "get_prop ps k = (case map_of ps k of None \<Rightarrow> JUndefined | Some v \<Rightarrow> v)"

text \<open>
  Property order. JavaScript enumerates the keys that are array indices (canonical decimal
  numerals below \<open>2^32 - 1\<close>) first, in ascending numeric order, and then the other string keys
  in the order in which they were created. Writing to an existing key keeps its position.
\<close>

definition is_digit :: "char \<Rightarrow> bool" where
  "is_digit c = (c \<in> set ''0123456789'')"

definition digit_value :: "char \<Rightarrow> nat" where
  "digit_value c = of_char c - 48"

definition decimal_value :: "string \<Rightarrow> nat" where
  "decimal_value ds = foldl (\<lambda>n c. 10 * n + digit_value c) 0 ds"

fun canonical_numeral :: "string \<Rightarrow> bool" where
  "canonical_numeral [] = False"
| "canonical_numeral [c] = is_digit c"
| "canonical_numeral (c # cs) = (is_digit c \<and> c \<noteq> CHR ''0'' \<and> list_all is_digit cs)"

definition is_array_index :: "string \<Rightarrow> bool" where
  "is_array_index k = (canonical_numeral k \<and> decimal_value k < 4294967295)"

fun insert_index :: "string \<Rightarrow> jsval \<Rightarrow> obj \<Rightarrow> obj" where
  "insert_index k v [] = [(k, v)]"
| "insert_index k v ((k', v') # ps) =
     (if is_array_index k' \<and> decimal_value k' < decimal_value k
      then (k', v') # insert_index k v ps
      else (k, v) # (k', v') # ps)"

definition obj_set :: "string \<Rightarrow> jsval \<Rightarrow> obj \<Rightarrow> obj" where
  "obj_set k v ps =
     (if k \<in> set (map fst ps) then AList.update k v ps
      else if is_array_index k then insert_index k v ps
      else ps @ [(k, v)])"

text \<open>
  \<open>Object.fromEntries(es)\<close> and the spread \<open>{...target, ...source}\<close> both define the
  properties one after the other.
\<close>

definition obj_assign :: "obj \<Rightarrow> obj \<Rightarrow> obj" where
  "obj_assign target source = foldl (\<lambda>acc (k, v). obj_set k v acc) target source"

definition fromEntries :: "obj \<Rightarrow> obj" where
  "fromEntries es = obj_assign [] es"

definition startsWith :: "string \<Rightarrow> char \<Rightarrow> bool" where
  "startsWith k c = (case k of [] \<Rightarrow> False | c' # _ \<Rightarrow> c' = c)"

text \<open>
  \<open>removeComputedProperties\<close> of the source:
  \<^verbatim>\<open>Object.fromEntries(Object.entries(obj).filter(([key]) => !key.startsWith('_')))\<close>
\<close>

definition removeComputedProperties :: "obj \<Rightarrow> obj" where
  "removeComputedProperties ob = fromEntries (filter (\<lambda>(key, _). \<not> startsWith key CHR ''_'') ob)"

section \<open>JSON.stringify\<close>

definition hex_char :: "nat \<Rightarrow> char" where
  "hex_char n = ''0123456789abcdef'' ! n"

text \<open>\<open>QuoteJSONString\<close>: the two-character escapes, \<open>\u00XX\<close> for other control characters.\<close>

definition json_escape :: "char \<Rightarrow> string" where
  "json_escape c =
     (if c = CHR 0x22 then [CHR 0x5C, CHR 0x22]
      else if c = CHR 0x5C then [CHR 0x5C, CHR 0x5C]
      else if c = CHR 0x08 then [CHR 0x5C, CHR ''b'']
      else if c = CHR 0x0C then [CHR 0x5C, CHR ''f'']
      else if c = CHR 0x0A then [CHR 0x5C, CHR ''n'']
      else if c = CHR 0x0D then [CHR 0x5C, CHR ''r'']
      else if c = CHR 0x09 then [CHR 0x5C, CHR ''t'']
      else if (of_char c :: nat) < 32
        then [CHR 0x5C, CHR ''u'', CHR ''0'', CHR ''0'',
              hex_char (of_char c div 16), hex_char (of_char c mod 16)]
      else [c])"

definition json_quote :: "string \<Rightarrow> string" where
  "json_quote s = [CHR 0x22] @ concat (map json_escape s) @ [CHR 0x22]"

fun decimal_of_nat :: "nat \<Rightarrow> string" where
  "decimal_of_nat n =
     (if n < 10 then [hex_char n] else decimal_of_nat (n div 10) @ [hex_char (n mod 10)])"

declare decimal_of_nat.simps [simp del]

definition decimal_of_int :: "int \<Rightarrow> string" where
  "decimal_of_int i = (if i < 0 then CHR ''-'' # decimal_of_nat (nat (- i)) else decimal_of_nat (nat i))"

fun join_comma :: "string list \<Rightarrow> string" where
  "join_comma [] = []"
| "join_comma [s] = s"
| "join_comma (s # t # ss) = s @ '','' @ join_comma (t # ss)"

text \<open>
  \<open>JSON.stringify\<close> yields \<open>undefined\<close> (here \<open>None\<close>) for \<open>undefined\<close>; inside an array
  \<open>undefined\<close> is written \<open>null\<close>, and a property whose value is \<open>undefined\<close> is left out.
  A number that is not finite is written \<open>null\<close>.
  The members of an object are written in property order, without any sorting.
\<close>

fun JSON_stringify :: "jsval \<Rightarrow> string option"
  and stringify_elements :: "jsval list \<Rightarrow> string list"
  and stringify_members :: "(string \<times> jsval) list \<Rightarrow> string list"
where
  "JSON_stringify JUndefined = None"
| "JSON_stringify JNull = Some ''null''"
| "JSON_stringify (JBool b) = Some (if b then ''true'' else ''false'')"
| "JSON_stringify (JNum n) = Some (decimal_of_int n)"
| "JSON_stringify JInfinity = Some ''null''"
| "JSON_stringify JMinusInfinity = Some ''null''"
| "JSON_stringify (JStr s) = Some (json_quote s)"
| "JSON_stringify (JOid h) = Some (json_quote h)"
| "JSON_stringify (JArr vs) = Some (''['' @ join_comma (stringify_elements vs) @ '']'')"
| "JSON_stringify (JObj ps) = Some (''{'' @ join_comma (stringify_members ps) @ ''}'')"
| "stringify_elements [] = []"
| "stringify_elements (v # vs) =
     (case JSON_stringify v of None \<Rightarrow> ''null'' | Some t \<Rightarrow> t) # stringify_elements vs"
| "stringify_members [] = []"
| "stringify_members ((k, v) # ps) =
     (case JSON_stringify v of None \<Rightarrow> [] | Some t \<Rightarrow> [json_quote k @ '':'' @ t])
     @ stringify_members ps"

section \<open>SHA-256 and Base64\<close>

text \<open>
  The fingerprint is \<^verbatim>\<open>crypto.createHash('sha256').update(text).digest('base64')\<close>.
  SHA-256 (FIPS 180-4) is written over 32-bit words held in natural numbers, with the
  wrap-around of every addition written out; the text is hashed in its UTF-8 encoding. The
  round constants and the initial hash value are given in decimal.
\<close>

definition rotr :: "nat \<Rightarrow> nat \<Rightarrow> nat" where
  "rotr n x = x div 2 ^ n + (x mod 2 ^ n) * 2 ^ (32 - n)"

definition Ch :: "nat \<Rightarrow> nat \<Rightarrow> nat \<Rightarrow> nat" where
  "Ch e f g = (e AND f) XOR ((4294967295 - e) AND g)"
definition Maj :: "nat \<Rightarrow> nat \<Rightarrow> nat \<Rightarrow> nat" where
  "Maj a b c = (a AND b) XOR (a AND c) XOR (b AND c)"
definition Sigma0 :: "nat \<Rightarrow> nat" where
  "Sigma0 x = rotr 2 x XOR rotr 13 x XOR rotr 22 x"
definition Sigma1 :: "nat \<Rightarrow> nat" where
  "Sigma1 x = rotr 6 x XOR rotr 11 x XOR rotr 25 x"
definition sigma0 :: "nat \<Rightarrow> nat" where
  "sigma0 x = rotr 7 x XOR rotr 18 x XOR x div 2 ^ 3"
definition sigma1 :: "nat \<Rightarrow> nat" where
  "sigma1 x = rotr 17 x XOR rotr 19 x XOR x div 2 ^ 10"

definition add32 :: "nat \<Rightarrow> nat \<Rightarrow> nat" where
  "add32 x y = (x + y) mod 4294967296"

definition K256 :: "nat list" where
  "K256 = [
   1116352408, 1899447441, 3049323471, 3921009573, 961987163, 1508970993, 2453635748, 2870763221,
   3624381080, 310598401, 607225278, 1426881987, 1925078388, 2162078206, 2614888103, 3248222580,
   3835390401, 4022224774, 264347078, 604807628, 770255983, 1249150122, 1555081692, 1996064986,
   2554220882, 2821834349, 2952996808, 3210313671, 3336571891, 3584528711, 113926993, 338241895,
   666307205, 773529912, 1294757372, 1396182291, 1695183700, 1986661051, 2177026350, 2456956037,
   2730485921, 2820302411, 3259730800, 3345764771, 3516065817, 3600352804, 4094571909, 275423344,
   430227734, 506948616, 659060556, 883997877, 958139571, 1322822218, 1537002063, 1747873779,
   1955562222, 2024104815, 2227730452, 2361852424, 2428436474, 2756734187, 3204031479, 3329325298]"

definition H256 :: "nat list" where
  "H256 = [1779033703, 3144134277, 1013904242, 2773480762, 1359893119, 2600822924, 528734635, 1541459225]"

fun sha_round :: "nat \<Rightarrow> nat \<Rightarrow> nat list \<Rightarrow> nat list" where
  "sha_round t1 t2 [a, b, c, d, e, f, g, h] = [add32 t1 t2, a, b, c, add32 d t1, e, f, g]"
| "sha_round t1 t2 st = st"

fun sha_rounds :: "nat list \<Rightarrow> nat list \<Rightarrow> nat list \<Rightarrow> nat list" where
  "sha_rounds (k # ks) [w0, w1, w2, w3, w4, w5, w6, w7, w8, w9, w10, w11, w12, w13, w14, w15]
       [a, b, c, d, e, f, g, h] =
     sha_rounds ks
       [w1, w2, w3, w4, w5, w6, w7, w8, w9, w10, w11, w12, w13, w14, w15,
        add32 (add32 (sigma1 w14) w9) (add32 (sigma0 w1) w0)]
       (sha_round (add32 (add32 (add32 h (Sigma1 e)) (add32 (Ch e f g) k)) w0)
          (add32 (Sigma0 a) (Maj a b c)) [a, b, c, d, e, f, g, h])"
| "sha_rounds ks ws st = st"

definition sha_compress :: "nat list \<Rightarrow> nat list \<Rightarrow> nat list" where
  "sha_compress st ws = map2 add32 st (sha_rounds K256 ws st)"

fun sha_blocks :: "nat list \<Rightarrow> nat list \<Rightarrow> nat list" where
  "sha_blocks st (w0 # w1 # w2 # w3 # w4 # w5 # w6 # w7 # w8 # w9 # w10 # w11 # w12 # w13 # w14 # w15 # rest) =
     sha_blocks (sha_compress st [w0, w1, w2, w3, w4, w5, w6, w7, w8, w9, w10, w11, w12, w13, w14, w15]) rest"
| "sha_blocks st ws = st"

fun be_words :: "nat list \<Rightarrow> nat list" where
  "be_words (a # b # c # d # bs) = (((a * 256 + b) * 256 + c) * 256 + d) # be_words bs"
| "be_words bs = []"

definition be32 :: "nat \<Rightarrow> nat list" where
  "be32 x = [x div 16777216 mod 256, x div 65536 mod 256, x div 256 mod 256, x mod 256]"

definition be64 :: "nat \<Rightarrow> nat list" where
  "be64 x = be32 (x div 4294967296) @ be32 (x mod 4294967296)"

definition sha_pad :: "nat list \<Rightarrow> nat list" where
  "sha_pad bs = bs @ [128] @ replicate ((119 - length bs mod 64) mod 64) 0 @ be64 (8 * length bs)"

definition sha256 :: "nat list \<Rightarrow> nat list" where
  "sha256 bs = concat (map be32 (sha_blocks H256 (be_words (sha_pad bs))))"

definition b64_alphabet :: string where
  "b64_alphabet = ''ABCDEFGHIJKLMNOPQRSTUVWXYZabcdefghijklmnopqrstuvwxyz0123456789+/''"

fun base64 :: "nat list \<Rightarrow> string" where
  "base64 (a # b # c # bs) =
     b64_alphabet ! (a div 4) # b64_alphabet ! ((a mod 4) * 16 + b div 16) #
     b64_alphabet ! ((b mod 16) * 4 + c div 64) # b64_alphabet ! (c mod 64) # base64 bs"
| "base64 [a, b] =
     [b64_alphabet ! (a div 4), b64_alphabet ! ((a mod 4) * 16 + b div 16),
      b64_alphabet ! ((b mod 16) * 4), CHR ''='']"
| "base64 [a] = [b64_alphabet ! (a div 4), b64_alphabet ! ((a mod 4) * 16), CHR ''='', CHR ''='']"
| "base64 [] = []"

definition utf8 :: "string \<Rightarrow> nat list" where
  "utf8 s = concat (map (\<lambda>c. if of_char c < (128::nat) then [of_char c]
                               else [192 + of_char c div 64, 128 + of_char c mod 64]) s)"

definition sha256_base64 :: "string \<Rightarrow> string" where
  "sha256_base64 s = base64 (sha256 (utf8 s))"

section \<open>Platform services\<close>

text \<open>
  Library functions that the handlers call and whose code is not part of the repository are
  parameters of the model: the digest, \<^verbatim>\<open>new Date(v).toISOString()\<close> (\<open>None\<close> when it
  throws a RangeError), \<^verbatim>\<open>decodeURIComponent\<close> (\<open>None\<close>: URIError), \<^verbatim>\<open>JSON.parse\<close>
  (\<open>None\<close>: SyntaxError) and the evaluation of a driver query
  \<^verbatim>\<open>find(query, projection, options).toArray()\<close> over the documents of a collection
  (\<open>None\<close> when the driver rejects the query).
\<close>

record platform =
  digest :: "string \<Rightarrow> string"
  Date_toISOString :: "jsval \<Rightarrow> string option"
  decodeURIComponent :: "string \<Rightarrow> string option"
  JSON_parse :: "string \<Rightarrow> jsval option"
  mongo_find :: "obj list \<Rightarrow> jsval \<Rightarrow> jsval \<Rightarrow> jsval \<Rightarrow> obj list option"

text \<open>
  What changes from one request to the next: the clock read by \<^verbatim>\<open>new Date().toISOString()\<close>
  and the identifier the driver generates for an inserted document that has none.
\<close>

record env =
  now :: string
  generated_id :: string

text \<open>
  \<^verbatim>\<open>crypto.createHash('sha256').update(JSON.stringify(v)).digest('base64')\<close>; \<open>update\<close>
  throws a TypeError when it is handed \<open>undefined\<close>.
\<close>

definition hash_json :: "platform \<Rightarrow> jsval \<Rightarrow> js_error + string" where
  "hash_json P v = (case JSON_stringify v of None \<Rightarrow> Inl TypeError | Some t \<Rightarrow> Inr (digest P t))"

text \<open>
  The Number value of an integer: the nearest double, ties to the even significand. Below
  \<open>2^53\<close> every integer is a double. Beyond, the doubles are the multiples of \<open>2^e\<close> with a
  53-bit significand, where \<open>e\<close> is the bit length less 53; what reaches \<open>2^1024\<close> is
  \<open>Infinity\<close>. The sign is carried separately (\<open>-0\<close> is falsy like \<open>0\<close> and is not told apart
  from it).
\<close>

fun bit_length :: "nat \<Rightarrow> nat" where
  "bit_length n = (if n = 0 then 0 else Suc (bit_length (n div 2)))"

declare bit_length.simps [simp del]

definition round_to_double :: "nat \<Rightarrow> nat option" where
  "round_to_double n =
     (if n < 2 ^ 53 then Some n
      else
        (let e = bit_length n - 53;
             q = n div 2 ^ e;
             r = n mod 2 ^ e;
             q' = (if 2 ^ e < 2 * r \<or> (2 * r = 2 ^ e \<and> odd q) then q + 1 else q)
         in if q' * 2 ^ e < 2 ^ 1024 then Some (q' * 2 ^ e) else None))"

definition Number_value :: "bool \<Rightarrow> nat \<Rightarrow> jsval" where
  "Number_value negative n =
     (case round_to_double n of
        None \<Rightarrow> if negative then JMinusInfinity else JInfinity
      | Some m \<Rightarrow> JNum (if negative then - int m else int m))"

text \<open>
  \<^verbatim>\<open>parseInt(s, 10)\<close>: leading white space, an optional sign, the longest prefix of
  decimal digits; the result is the Number value of the signed numeral, and \<open>None\<close> is NaN.
  (ECMAScript lets an implementation replace the digits after the 20th by zeros; Node.js
  rounds the numeral as it is written.) \<^verbatim>\<open>parseInt(x, 10) || 0\<close> maps NaN and zero to 0.
  An absent query parameter is \<open>undefined\<close>, which \<open>parseInt\<close> reads as the text \<open>undefined\<close>.
\<close>

definition js_whitespace :: "char \<Rightarrow> bool" where
  "js_whitespace c = (c \<in> set [CHR 0x20, CHR 0x09, CHR 0x0A, CHR 0x0B, CHR 0x0C, CHR 0x0D, CHR 0xA0])"

definition parse_digits :: "string \<Rightarrow> nat option" where
  "parse_digits s = (case takeWhile is_digit s of [] \<Rightarrow> None | ds \<Rightarrow> Some (decimal_value ds))"

definition parseInt10 :: "string \<Rightarrow> jsval option" where
  "parseInt10 s =
     (case dropWhile js_whitespace s of
        [] \<Rightarrow> None
      | c # cs \<Rightarrow>
          if c = CHR ''-'' then map_option (Number_value True) (parse_digits cs)
          else if c = CHR ''+'' then map_option (Number_value False) (parse_digits cs)
          else map_option (Number_value False) (parse_digits (c # cs)))"

definition parseInt_or_0 :: "string option \<Rightarrow> jsval" where
  "parseInt_or_0 q =
     (case parseInt10 (case q of None \<Rightarrow> ''undefined'' | Some t \<Rightarrow> t) of
        None \<Rightarrow> JNum 0
      | Some v \<Rightarrow> js_or v (JNum 0))"

text \<open>
  Member access \<open>v.k\<close> and strict-mode assignment \<open>v.k = x\<close> (the sources are ES modules), for
  the property names the handlers use, none of which is defined on a built-in prototype.
  Reading a member of \<open>undefined\<close> or \<open>null\<close> throws; assigning to a member of \<open>undefined\<close>,
  \<open>null\<close> or a primitive throws. An array that receives a named property is represented by
  the object of its elements under their indices together with that property, an \<open>ObjectId\<close>
  (which no parsed JSON text contains) by the object holding that property.
\<close>

definition member :: "jsval \<Rightarrow> string \<Rightarrow> js_error + jsval" where
  "member v k =
     (case v of
        JUndefined \<Rightarrow> Inl TypeError
      | JNull \<Rightarrow> Inl TypeError
      | JObj ps \<Rightarrow> Inr (get_prop ps k)
      | _ \<Rightarrow> Inr JUndefined)"

definition assign_member :: "jsval \<Rightarrow> string \<Rightarrow> jsval \<Rightarrow> js_error + jsval" where
  "assign_member v k x =
     (case v of
        JObj ps \<Rightarrow> Inr (JObj (obj_set k x ps))
      | JArr vs \<Rightarrow> Inr (JObj (obj_set k x (zip (map decimal_of_nat [0..<length vs]) vs)))
      | JOid h \<Rightarrow> Inr (JObj [(k, x)])
      | _ \<Rightarrow> Inl TypeError)"

section \<open>Identifiers\<close>

definition is_lower_hex :: "char \<Rightarrow> bool" where
  "is_lower_hex c = (c \<in> set ''0123456789abcdef'')"

text \<open>
  Modelled from the spec: the driver's \<open>ObjectId\<close> class (its constructor, which throws on a
  malformed argument, and \<open>ObjectId.isValid\<close>) is imported from the \<open>mongodb\<close> package and is not
  among the sources. The spec gives the accepted shape: only strings of 24 lower-case
  hexadecimal characters.
\<close>

definition ObjectId_shape :: "string \<Rightarrow> bool" where
  "ObjectId_shape t = (length t = 24 \<and> list_all is_lower_hex t)"

text \<open>Modelled from the spec: \<open>new ObjectId(v)\<close> accepts only strings of that shape and throws
  otherwise.\<close>

definition new_ObjectId :: "jsval \<Rightarrow> js_error + jsval" where
  "new_ObjectId v =
     (case v of
        JStr t \<Rightarrow> if ObjectId_shape t then Inr (JOid t) else Inl BSONError
      | _ \<Rightarrow> Inl BSONError)"

text \<open>Modelled from the spec: \<open>ObjectId.isValid(v)\<close> tells whether the constructor accepts \<open>v\<close>.\<close>

definition ObjectId_isValid :: "jsval \<Rightarrow> bool" where
  "ObjectId_isValid v = (case new_ObjectId v of Inl _ \<Rightarrow> False | Inr _ \<Rightarrow> True)"

section \<open>Server state: connection registry and backend\<close>

record client_entry =
  client :: nat
  connectionName :: string

datatype driver_call =
    FindOne nat string string jsval
  | InsertOne nat string string obj
  | ReplaceOne nat string string jsval obj
  | DeleteOne nat string string jsval
  | Find nat string string jsval jsval jsval
  | Close nat

text \<open>
  \<open>CONNECTED_CLIENTS\<close> maps a database name to its client handle and alias. The backend holds,
  for each handle, database and collection, the list of stored documents; \<open>reachable\<close> tells
  whether a driver call through a handle succeeds or throws; \<open>calls\<close> records every call
  issued to the driver, in order.
\<close>

record server_state =
  CONNECTED_CLIENTS :: "string \<rightharpoonup> client_entry"
  collections :: "nat \<times> string \<times> string \<Rightarrow> obj list"
  reachable :: "nat \<Rightarrow> bool"
  calls :: "driver_call list"

text \<open>
  \<^verbatim>\<open>const { client, connectionName } = CONNECTED_CLIENTS[databaseName];\<close>
  \<open>CONNECTED_CLIENTS\<close> is an object literal, so a name without an entry of its own is looked up
  on \<open>Object.prototype\<close>: for the names defined there the value is a function or object without
  the two properties, and both variables are \<open>undefined\<close>; for every other name the value is
  \<open>undefined\<close> and the destructuring throws a TypeError.
\<close>

definition Object_prototype_keys :: "string list" where
  "Object_prototype_keys =
     [''constructor'', ''__defineGetter__'', ''__defineSetter__'', ''hasOwnProperty'',
      ''__lookupGetter__'', ''__lookupSetter__'', ''isPrototypeOf'', ''propertyIsEnumerable'',
      ''toString'', ''valueOf'', ''__proto__'', ''toLocaleString'']"

definition registry_lookup :: "(string \<rightharpoonup> client_entry) \<Rightarrow> string \<Rightarrow> js_error + nat option \<times> jsval" where
  "registry_lookup reg name =
     (case reg name of
        Some e \<Rightarrow> Inr (Some (client e), JStr (connectionName e))
      | None \<Rightarrow> if name \<in> set Object_prototype_keys then Inr (None, JUndefined) else Inl TypeError)"

text \<open>
  Modelled from the spec: the backend document store is an external collaborator, assumed to
  provide find, insert, replace and delete by identifier on a collection. A collection is a
  list of documents; a document matches an identifier when its \<open>_id\<close> property equals it; an
  inserted document without \<open>_id\<close> receives the generated one, and inserting an \<open>_id\<close> that is
  already present fails. Documents are stored as they are handed over (the wire encoding is
  not modelled).
\<close>

definition has_id :: "jsval \<Rightarrow> obj \<Rightarrow> bool" where
  "has_id i d = (get_prop d ''_id'' = i)"

fun replace_first :: "(obj \<Rightarrow> bool) \<Rightarrow> obj \<Rightarrow> obj list \<Rightarrow> obj list" where
  "replace_first p d' [] = []"
| "replace_first p d' (d # ds) = (if p d then d' # ds else d # replace_first p d' ds)"

fun remove_first :: "(obj \<Rightarrow> bool) \<Rightarrow> obj list \<Rightarrow> obj list" where
  "remove_first p [] = []"
| "remove_first p (d # ds) = (if p d then ds else d # remove_first p ds)"

definition issue :: "driver_call \<Rightarrow> server_state \<Rightarrow> server_state" where
  "issue c s = s\<lparr>calls := calls s @ [c]\<rparr>"

text \<open>Modelled from the spec: \<open>collection.findOne({ _id: i })\<close>, the first document with that
  identifier or \<open>null\<close>.\<close>

definition findOne :: "nat \<Rightarrow> string \<Rightarrow> string \<Rightarrow> jsval \<Rightarrow> server_state \<Rightarrow> (js_error + obj option) \<times> server_state" where
  "findOne h db coll i s =
     (if reachable s h then (Inr (find (has_id i) (collections s (h, db, coll))), issue (FindOne h db coll i) s)
      else (Inl MongoError, issue (FindOne h db coll i) s))"

text \<open>Modelled from the spec: \<open>collection.insertOne(d)\<close>, which returns \<open>insertedId\<close>.\<close>

definition insertOne :: "env \<Rightarrow> nat \<Rightarrow> string \<Rightarrow> string \<Rightarrow> obj \<Rightarrow> server_state \<Rightarrow> (js_error + jsval) \<times> server_state" where
  "insertOne e h db coll d s =
     (let d' = (if get_prop d ''_id'' = JUndefined \<or> get_prop d ''_id'' = JNull
                then obj_set ''_id'' (JOid (generated_id e)) d else d);
          s' = issue (InsertOne h db coll d) s
      in if reachable s h \<and> find (has_id (get_prop d' ''_id'')) (collections s (h, db, coll)) = None
         then (Inr (get_prop d' ''_id''),
               s'\<lparr>collections := (collections s)((h, db, coll) := collections s (h, db, coll) @ [d'])\<rparr>)
         else (Inl MongoError, s'))"

text \<open>Modelled from the spec: \<open>collection.replaceOne({ _id: i }, d)\<close> replaces the first
  document with that identifier.\<close>

definition replaceOne :: "nat \<Rightarrow> string \<Rightarrow> string \<Rightarrow> jsval \<Rightarrow> obj \<Rightarrow> server_state \<Rightarrow> (js_error + unit) \<times> server_state" where
  "replaceOne h db coll i d s =
     (let s' = issue (ReplaceOne h db coll i d) s
      in if reachable s h
         then (Inr (),
               s'\<lparr>collections := (collections s)((h, db, coll) := replace_first (has_id i) d (collections s (h, db, coll)))\<rparr>)
         else (Inl MongoError, s'))"

text \<open>Modelled from the spec: \<open>collection.deleteOne({ _id: i })\<close> removes the first document
  with that identifier and returns \<open>deletedCount\<close>.\<close>

definition deleteOne :: "nat \<Rightarrow> string \<Rightarrow> string \<Rightarrow> jsval \<Rightarrow> server_state \<Rightarrow> (js_error + nat) \<times> server_state" where
  "deleteOne h db coll i s =
     (let s' = issue (DeleteOne h db coll i) s
      in if reachable s h
         then (Inr (case find (has_id i) (collections s (h, db, coll)) of None \<Rightarrow> 0 | Some _ \<Rightarrow> 1),
               s'\<lparr>collections := (collections s)((h, db, coll) := remove_first (has_id i) (collections s (h, db, coll)))\<rparr>)
         else (Inl MongoError, s'))"

text \<open>Modelled from the spec: the list operation; what it returns is the platform's
  \<open>mongo_find\<close>.\<close>

definition find_toArray :: "platform \<Rightarrow> nat \<Rightarrow> string \<Rightarrow> string \<Rightarrow> jsval \<Rightarrow> jsval \<Rightarrow> jsval \<Rightarrow> server_state \<Rightarrow> (js_error + obj list) \<times> server_state" where
  "find_toArray P h db coll q proj opts s =
     (let s' = issue (Find h db coll q proj opts) s
      in if reachable s h
         then (case mongo_find P (collections s (h, db, coll)) q proj opts of
                 None \<Rightarrow> (Inl MongoError, s')
               | Some ds \<Rightarrow> (Inr ds, s'))
         else (Inl MongoError, s'))"

text \<open>Modelled from the spec: \<open>client.close()\<close>.\<close>

definition close_client :: "nat \<Rightarrow> server_state \<Rightarrow> (js_error + unit) \<times> server_state" where
  "close_client h s =
     (if reachable s h then (Inr (), issue (Close h) s) else (Inl MongoError, issue (Close h) s))"

section \<open>Requests and responses\<close>

text \<open>
  A request carries the route parameters (\<open>req.params\<close>), the query parameters (\<open>req.query\<close>,
  each given at most once, so that its value is absent or a string), the \<open>If-Match\<close> header
  and the parsed JSON body. A response is the status, the two headers the
  handlers set and the JSON payload; of the payload, the diagnostic \<open>message\<close> and \<open>timestamp\<close>
  texts are left out. A handler either responds or lets an exception escape.
\<close>

record request =
  databaseName :: string
  collectionName :: string
  mongoId :: string
  query_filter :: "string option"
  query_limit :: "string option"
  query_skip :: "string option"
  if_match :: "string option"
  body :: obj

record response =
  status :: nat
  ETag :: "string option"
  Last_Modified :: "string option"
  json :: jsval

datatype outcome = Responded response | Uncaught js_error

definition respond :: "nat \<Rightarrow> jsval \<Rightarrow> response" where
  "respond st payload = \<lparr>status = st, ETag = None, Last_Modified = None, json = payload\<rparr>"

text \<open>\<open>!ifMatch\<close> and \<open>filter ? ... : ...\<close>: a header or query parameter is falsy when it is
  absent or empty.\<close>

definition falsy :: "string option \<Rightarrow> bool" where
  "falsy h = (case h of None \<Rightarrow> True | Some t \<Rightarrow> t = [])"

section \<open>Conditional upsert\<close>

text \<open>
  The \<open>catch\<close> block of the PUT handlers answers 500. Headers set before the exception stay
  on the response.
\<close>

definition upsert_failed :: "jsval \<Rightarrow> string option \<Rightarrow> response" where
  "upsert_failed connName etag =
     \<lparr>status = 500, ETag = etag, Last_Modified = None, json = JObj [(''name'', connName)]\<rparr>"

text \<open>
  The branch \<^verbatim>\<open>if (existingResource) { ... }\<close>, which the two PUT handlers share word for
  word: the current ETag over the stored document without its computed properties, 409
  without \<open>If-Match\<close>, 412 on a different \<open>If-Match\<close>, otherwise the merge, \<open>replaceOne\<close> and 204
  with \<open>newETag\<close>, the hash of \<open>JSON.stringify(nonComputedBody)\<close>.
\<close>

definition currentETag :: "platform \<Rightarrow> obj \<Rightarrow> js_error + string" where
  "currentETag P existingResource = hash_json P (JObj (removeComputedProperties existingResource))"

definition rejected :: "platform \<Rightarrow> nat \<Rightarrow> jsval \<Rightarrow> string \<Rightarrow> jsval \<Rightarrow> jsval \<Rightarrow> response" where
  "rejected P code connName etag lastModified createdAt =
     (case Date_toISOString P (js_or lastModified createdAt) of
        None \<Rightarrow> upsert_failed connName (Some etag)
      | Some t \<Rightarrow> \<lparr>status = code, ETag = Some etag, Last_Modified = Some t, json = JObj []\<rparr>)"

definition updatedDocument :: "env \<Rightarrow> jsval \<Rightarrow> obj \<Rightarrow> obj \<Rightarrow> obj" where
  "updatedDocument e resourceId existingResource requestBody =
     obj_set ''_createdAt'' (get_prop existingResource ''_createdAt'')
       (obj_set ''_lastModified'' (JStr (now e))
         (obj_set ''_id'' resourceId
           (obj_assign (obj_assign [] (removeComputedProperties existingResource))
              (removeComputedProperties requestBody))))"

definition update_existing :: "platform \<Rightarrow> env \<Rightarrow> nat \<Rightarrow> jsval \<Rightarrow> request \<Rightarrow> jsval \<Rightarrow> obj \<Rightarrow> server_state \<Rightarrow> response \<times> server_state" where
  "update_existing P e h connName r resourceId existingResource s =
     (case currentETag P existingResource of
        Inl _ \<Rightarrow> (upsert_failed connName None, s)
      | Inr etag \<Rightarrow>
          if falsy (if_match r)
          then (rejected P 409 connName etag
                  (get_prop existingResource ''_lastModified'') (get_prop existingResource ''_createdAt''), s)
          else if if_match r \<noteq> Some etag
          then (rejected P 412 connName etag
                  (get_prop existingResource ''_lastModified'') (get_prop existingResource ''_createdAt''), s)
          else
            (case replaceOne h (databaseName r) (collectionName r) resourceId
                    (updatedDocument e resourceId existingResource (body r)) s of
               (Inl _, s') \<Rightarrow> (upsert_failed connName None, s')
             | (Inr _, s') \<Rightarrow>
                 (case hash_json P (JObj (removeComputedProperties (body r))) of
                    Inl _ \<Rightarrow> (upsert_failed connName None, s')
                  | Inr newETag \<Rightarrow>
                      (case Date_toISOString P
                              (get_prop (updatedDocument e resourceId existingResource (body r)) ''_lastModified'') of
                         None \<Rightarrow> (upsert_failed connName None, s')
                       | Some newLastModified \<Rightarrow>
                           (\<lparr>status = 204, ETag = Some newETag, Last_Modified = Some newLastModified,
                             json = JUndefined\<rparr>, s')))))"

text \<open>
  The \<open>else\<close> branch of src/index.js: \<open>newResource\<close> has no \<open>_id\<close>, and \<open>newETag\<close> is the hash
  of \<open>JSON.stringify(req.body)\<close>.
\<close>

definition newResource :: "env \<Rightarrow> obj \<Rightarrow> obj" where
  "newResource e requestBody =
     obj_set ''_lastModified'' JNull
       (obj_set ''_createdAt'' (JStr (now e))
         (obj_assign [] (removeComputedProperties requestBody)))"

definition create_resource :: "platform \<Rightarrow> env \<Rightarrow> nat \<Rightarrow> jsval \<Rightarrow> request \<Rightarrow> server_state \<Rightarrow> response \<times> server_state" where
  "create_resource P e h connName r s =
     (case insertOne e h (databaseName r) (collectionName r) (newResource e (body r)) s of
        (Inl _, s') \<Rightarrow> (upsert_failed connName None, s')
      | (Inr insertedId, s') \<Rightarrow>
          (case hash_json P (JObj (body r)) of
             Inl _ \<Rightarrow> (upsert_failed connName None, s')
           | Inr newETag \<Rightarrow>
               (\<lparr>status = 201, ETag = Some newETag, Last_Modified = Some (now e),
                 json = JObj [(''_id'', insertedId)]\<rparr>, s')))"

text \<open>The \<open>else\<close> branch of the revision with the identifier in the path: \<open>newDocument\<close>
  carries \<open>_id: documentId\<close>.\<close>

definition newDocument :: "env \<Rightarrow> jsval \<Rightarrow> obj \<Rightarrow> obj" where
  "newDocument e documentId requestBody =
     obj_set ''_lastModified'' JNull
       (obj_set ''_id'' documentId
         (obj_set ''_createdAt'' (JStr (now e))
           (obj_assign [] (removeComputedProperties requestBody))))"

definition create_document :: "platform \<Rightarrow> env \<Rightarrow> nat \<Rightarrow> jsval \<Rightarrow> request \<Rightarrow> jsval \<Rightarrow> server_state \<Rightarrow> response \<times> server_state" where
  "create_document P e h connName r documentId s =
     (case insertOne e h (databaseName r) (collectionName r) (newDocument e documentId (body r)) s of
        (Inl _, s') \<Rightarrow> (upsert_failed connName None, s')
      | (Inr insertedId, s') \<Rightarrow>
          (case hash_json P (JObj (body r)) of
             Inl _ \<Rightarrow> (upsert_failed connName None, s')
           | Inr newETag \<Rightarrow>
               (\<lparr>status = 201, ETag = Some newETag, Last_Modified = Some (now e),
                 json = JObj [(''_id'', insertedId)]\<rparr>, s')))"

text \<open>
  \<^verbatim>\<open>app.put('/databases/:databaseName/collections/:collectionName', ...)\<close> of src/index.js.
  The identifier is \<open>req.body._id\<close>; its conversion happens inside the \<open>try\<close> block and before
  the test of \<open>client\<close>.
\<close>

definition put_collection :: "platform \<Rightarrow> env \<Rightarrow> request \<Rightarrow> server_state \<Rightarrow> outcome \<times> server_state" where
  "put_collection P e r s =
     (case registry_lookup (CONNECTED_CLIENTS s) (databaseName r) of
        Inl err \<Rightarrow> (Uncaught err, s)
      | Inr (cl, connName) \<Rightarrow>
          (case (if truthy (get_prop (body r) ''_id'') then new_ObjectId (get_prop (body r) ''_id'')
                 else Inr JUndefined) of
             Inl _ \<Rightarrow> (Responded (upsert_failed connName None), s)
           | Inr resourceId \<Rightarrow>
               (case cl of
                  None \<Rightarrow> (Responded (respond 404 (JObj [(''name'', connName)])), s)
                | Some h \<Rightarrow>
                    (case findOne h (databaseName r) (collectionName r) resourceId s of
                       (Inl _, s') \<Rightarrow> (Responded (upsert_failed connName None), s')
                     | (Inr (Some existingResource), s') \<Rightarrow>
                         apfst Responded (update_existing P e h connName r resourceId existingResource s')
                     | (Inr None, s') \<Rightarrow>
                         apfst Responded (create_resource P e h connName r s')))))"

text \<open>
  \<^verbatim>\<open>app.put('/databases/:databaseName/collections/:collectionName/:mongoId', ...)\<close> of the
  revision. The first \<open>try\<close> block answers 400 when the \<open>ObjectId\<close> constructor throws.
\<close>

definition put_document :: "platform \<Rightarrow> env \<Rightarrow> request \<Rightarrow> server_state \<Rightarrow> outcome \<times> server_state" where
  "put_document P e r s =
     (case registry_lookup (CONNECTED_CLIENTS s) (databaseName r) of
        Inl err \<Rightarrow> (Uncaught err, s)
      | Inr (cl, connName) \<Rightarrow>
          (case new_ObjectId (JStr (mongoId r)) of
             Inl _ \<Rightarrow> (Responded (respond 400 (JObj [(''name'', connName)])), s)
           | Inr _ \<Rightarrow>
               (case cl of
                  None \<Rightarrow> (Responded (respond 404 (JObj [(''name'', JNull)])), s)
                | Some h \<Rightarrow>
                    (case (if mongoId r \<noteq> [] then new_ObjectId (JStr (mongoId r)) else Inr JUndefined) of
                       Inl _ \<Rightarrow> (Responded (upsert_failed connName None), s)
                     | Inr documentId \<Rightarrow>
                         (case findOne h (databaseName r) (collectionName r) documentId s of
                            (Inl _, s') \<Rightarrow> (Responded (upsert_failed connName None), s')
                          | (Inr (Some existingDoc), s') \<Rightarrow>
                              apfst Responded (update_existing P e h connName r documentId existingDoc s')
                          | (Inr None, s') \<Rightarrow>
                              apfst Responded (create_document P e h connName r documentId s'))))))"

section \<open>Reading, deleting, disconnecting\<close>

text \<open>
  \<^verbatim>\<open>app.get('/databases/:databaseName/collections/:collectionName', ...)\<close>. The filter is
  parsed before \<open>client\<close> is tested; \<open>config.options.limit\<close> and \<open>.skip\<close> are assigned in place.
\<close>

definition default_config :: jsval where
  "default_config = JObj [(''query'', JObj []), (''projection'', JObj []), (''options'', JObj [])]"

definition parse_filter :: "platform \<Rightarrow> string option \<Rightarrow> js_error + jsval" where
  "parse_filter P f =
     (if falsy f then Inr default_config
      else (case decodeURIComponent P (case f of None \<Rightarrow> [] | Some t \<Rightarrow> t) of
              None \<Rightarrow> Inl URIError
            | Some t \<Rightarrow> (case JSON_parse P t of None \<Rightarrow> Inl SyntaxError | Some v \<Rightarrow> Inr v)))"

definition list_failed :: "jsval \<Rightarrow> response" where
  "list_failed connName = respond 500 (JObj [(''name'', connName), (''status'', JStr ''UNKNOWN'')])"

definition set_paging :: "jsval \<Rightarrow> string option \<Rightarrow> string option \<Rightarrow> js_error + jsval" where
  "set_paging config lim sk =
     (case member config ''options'' of
        Inl err \<Rightarrow> Inl err
      | Inr opts \<Rightarrow>
          (case assign_member opts ''limit'' (parseInt_or_0 lim) of
             Inl err \<Rightarrow> Inl err
           | Inr opts' \<Rightarrow> assign_member opts' ''skip'' (parseInt_or_0 sk)))"

definition get_collection :: "platform \<Rightarrow> request \<Rightarrow> server_state \<Rightarrow> outcome \<times> server_state" where
  "get_collection P r s =
     (case registry_lookup (CONNECTED_CLIENTS s) (databaseName r) of
        Inl err \<Rightarrow> (Uncaught err, s)
      | Inr (cl, connName) \<Rightarrow>
          (case parse_filter P (query_filter r) of
             Inl _ \<Rightarrow> (Responded (list_failed connName), s)
           | Inr config \<Rightarrow>
               (case cl of
                  None \<Rightarrow> (Responded (respond 404 (JObj [(''status'', JStr ''UNKNOWN'')])), s)
                | Some h \<Rightarrow>
                    (case set_paging config (query_limit r) (query_skip r) of
                       Inl _ \<Rightarrow> (Responded (list_failed connName), s)
                     | Inr opts \<Rightarrow>
                         (case member config ''query'' of
                            Inl _ \<Rightarrow> (Responded (list_failed connName), s)
                          | Inr q \<Rightarrow>
                              (case member config ''projection'' of
                                 Inl _ \<Rightarrow> (Responded (list_failed connName), s)
                               | Inr proj \<Rightarrow>
                                   (case find_toArray P h (databaseName r) (collectionName r) q proj opts s of
                                      (Inl _, s') \<Rightarrow> (Responded (list_failed connName), s')
                                    | (Inr results, s') \<Rightarrow>
                                        (Responded (respond 200
                                           (JObj [(''items'', JArr (map JObj results)),
                                                  (''count'', JNum (int (length results)))])), s'))))))))"

text \<open>\<^verbatim>\<open>app.get('/databases/:databaseName/collections/:collectionName/:mongoId', ...)\<close>:
  \<open>client\<close> is tested first, then \<open>ObjectId.isValid(mongoId)\<close>.\<close>

definition get_document :: "request \<Rightarrow> server_state \<Rightarrow> outcome \<times> server_state" where
  "get_document r s =
     (case registry_lookup (CONNECTED_CLIENTS s) (databaseName r) of
        Inl err \<Rightarrow> (Uncaught err, s)
      | Inr (cl, connName) \<Rightarrow>
          (case cl of
             None \<Rightarrow> (Responded (respond 404 (JObj [(''name'', connName)])), s)
           | Some h \<Rightarrow>
               if \<not> ObjectId_isValid (JStr (mongoId r))
               then (Responded (respond 400 (JObj [(''name'', connName)])), s)
               else
                 (case new_ObjectId (JStr (mongoId r)) of
                    Inl _ \<Rightarrow> (Responded (respond 500 (JObj [(''name'', connName)])), s)
                  | Inr i \<Rightarrow>
                      (case findOne h (databaseName r) (collectionName r) i s of
                         (Inl _, s') \<Rightarrow> (Responded (respond 500 (JObj [(''name'', connName)])), s')
                       | (Inr (Some result), s') \<Rightarrow>
                           (Responded (respond 200 (JObj [(''items'', JArr [JObj result]), (''count'', JNum 1)])), s')
                       | (Inr None, s') \<Rightarrow>
                           (Responded (respond 404 (JObj [(''items'', JArr []), (''count'', JNum 0)])), s')))))"

text \<open>\<^verbatim>\<open>app.delete('/databases/:databaseName/collections/:collectionName/:mongoId', ...)\<close>
  of the revision. The request's headers are never read.\<close>

definition delete_document :: "request \<Rightarrow> server_state \<Rightarrow> outcome \<times> server_state" where
  "delete_document r s =
     (case registry_lookup (CONNECTED_CLIENTS s) (databaseName r) of
        Inl err \<Rightarrow> (Uncaught err, s)
      | Inr (cl, connName) \<Rightarrow>
          (case new_ObjectId (JStr (mongoId r)) of
             Inl _ \<Rightarrow> (Responded (respond 400 (JObj [(''name'', connName)])), s)
           | Inr i \<Rightarrow>
               (case cl of
                  None \<Rightarrow> (Responded (respond 404 (JObj [(''name'', connName)])), s)
                | Some h \<Rightarrow>
                    (case deleteOne h (databaseName r) (collectionName r) i s of
                       (Inl _, s') \<Rightarrow> (Responded (respond 500 (JObj [(''name'', connName)])), s')
                     | (Inr deletedCount, s') \<Rightarrow>
                         if deletedCount = 0
                         then (Responded (respond 404 (JObj [(''name'', connName)])), s')
                         else (Responded (respond 204 JUndefined), s')))))"

text \<open>\<^verbatim>\<open>app.delete('/databases/:databaseName', ...)\<close>: the entry is removed only after a
  successful \<open>close\<close>.\<close>

definition disconnect :: "request \<Rightarrow> server_state \<Rightarrow> outcome \<times> server_state" where
  "disconnect r s =
     (if databaseName r = []
      then (Responded (respond 400 (JObj [(''status'', JStr ''CONNECTED'')])), s)
      else
        (case registry_lookup (CONNECTED_CLIENTS s) (databaseName r) of
           Inl err \<Rightarrow> (Uncaught err, s)
         | Inr (cl, connName) \<Rightarrow>
             (case cl of
                None \<Rightarrow> (Responded (respond 404 (JObj [(''status'', JStr ''UNKNOWN'')])), s)
              | Some h \<Rightarrow>
                  (case close_client h s of
                     (Inl _, s') \<Rightarrow> (Responded (respond 500 (JObj [(''status'', JStr ''UNKNOWN'')])), s')
                   | (Inr _, s') \<Rightarrow>
                       (Responded (respond 200 (JObj [(''name'', connName), (''status'', JStr ''DISCONNECTED'')])),
                        s'\<lparr>CONNECTED_CLIENTS := (CONNECTED_CLIENTS s')(databaseName r := None)\<rparr>)))))"

section \<open>A platform and states for running the handlers\<close>

text \<open>
  The handlers are run below on concrete requests. The digest of \<open>example_platform\<close> is
  SHA-256 in Base64. Its other services are stand-ins that agree with Node.js on the inputs
  used here: a canonical ISO timestamp is rendered as itself, a text without \<open>%\<close> decodes to
  itself, the JSON text \<open>{}\<close> parses to the empty object and a text that does not start a JSON
  value is rejected, and a query returns the documents of the collection.
\<close>

definition example_platform :: platform where
  "example_platform =
     \<lparr>digest = sha256_base64,
      Date_toISOString = (\<lambda>v. case v of JStr t \<Rightarrow> Some t | _ \<Rightarrow> None),
      decodeURIComponent = (\<lambda>t. if CHR ''%'' \<in> set t then None else Some t),
      JSON_parse = (\<lambda>t. if t = ''{}'' then Some (JObj []) else None),
      mongo_find = (\<lambda>ds q proj opts. Some ds)\<rparr>"

definition example_env :: env where
  "example_env = \<lparr>now = ''2024-05-01T10:00:00.000Z'', generated_id = ''65f0a1b2c3d4e5f601234567''\<rparr>"

definition example_id :: string where
  "example_id = ''0123456789abcdef01234567''"

definition stored_doc :: obj where
  "stored_doc =
     [(''name'', JStr ''a''), (''qty'', JNum 1), (''_createdAt'', JStr ''2024-04-01T09:00:00.000Z''),
      (''_id'', JOid example_id), (''_lastModified'', JNull)]"

definition no_connections :: server_state where
  "no_connections =
     \<lparr>CONNECTED_CLIENTS = Map.empty, collections = (\<lambda>key. []), reachable = (\<lambda>h. True), calls = []\<rparr>"

text \<open>The database \<open>shop\<close> is connected through handle 0; its collection \<open>items\<close> holds \<open>ds\<close>.\<close>

definition connected :: "obj list \<Rightarrow> server_state" where
  "connected ds =
     \<lparr>CONNECTED_CLIENTS = [''shop'' \<mapsto> \<lparr>client = 0, connectionName = ''happy-cat''\<rparr>],
      collections = (\<lambda>key. if key = (0, ''shop'', ''items'') then ds else []),
      reachable = (\<lambda>h. True), calls = []\<rparr>"

definition example_request :: request where
  "example_request =
     \<lparr>databaseName = ''shop'', collectionName = ''items'', mongoId = example_id,
      query_filter = None, query_limit = None, query_skip = None, if_match = None, body = []\<rparr>"

text \<open>Two documents with the same fields and values, created in different key orders.\<close>

definition name_first :: obj where
  "name_first = [(''_id'', JOid example_id), (''name'', JStr ''a''), (''qty'', JNum 1)]"

definition qty_first :: obj where
  "qty_first = [(''_id'', JOid example_id), (''qty'', JNum 1), (''name'', JStr ''a'')]"

text \<open>Requests used below: a create whose body carries a computed-looking key, a conditional
  update that presents the current fingerprint of \<open>stored_doc\<close>, and the same two for the
  route that takes the identifier from the body.\<close>

definition create_request :: request where
  "create_request = example_request\<lparr>body := [(''name'', JStr ''a''), (''_rev'', JNum 1)]\<rparr>"

definition update_request :: request where
  "update_request =
     example_request\<lparr>if_match := Some ''12R2OdUk70KUrpb6/EfYMbBdL8eoTiOixxYygM8m/mY='',
                     body := [(''_id'', JStr example_id), (''name'', JStr ''b'')]\<rparr>"

text \<open>The status a handler answered with, if it answered.\<close>

definition status_of :: "outcome \<times> server_state \<Rightarrow> nat option" where
  "status_of x = (case fst x of Responded res \<Rightarrow> Some (status res) | Uncaught _ \<Rightarrow> None)"




section \<open>Properties of objects\<close>

lemma keys_insert_index: "fst ` set (insert_index k v ps) = insert k (fst ` set ps)"
  by (induction k v ps rule: insert_index.induct) (simp_all add: insert_commute)

lemma map_of_insert_index:
  "k \<notin> fst ` set ps \<Longrightarrow> map_of (insert_index k v ps) = (map_of ps)(k \<mapsto> v)"
  by (induction ps) (auto simp: fun_upd_twist)

lemma distinct_insert_index:
  "k \<notin> fst ` set ps \<Longrightarrow> distinct (map fst ps) \<Longrightarrow> distinct (map fst (insert_index k v ps))"
  by (induction ps) (auto simp: keys_insert_index)

lemma map_of_append_fresh:
  "k \<notin> fst ` set ps \<Longrightarrow> map_of (ps @ [(k, v)]) = (map_of ps)(k \<mapsto> v)"
  by (induction ps) (auto simp: fun_upd_twist)

lemma map_of_obj_set: "map_of (obj_set k v ps) = (map_of ps)(k \<mapsto> v)"
  by (simp add: obj_set_def update_conv' map_of_insert_index map_of_append_fresh del: map_of_append)

lemma keys_obj_set: "fst ` set (obj_set k v ps) = insert k (fst ` set ps)"
  by (simp add: obj_set_def keys_insert_index dom_update insert_absorb)

lemma distinct_obj_set: "distinct (map fst ps) \<Longrightarrow> distinct (map fst (obj_set k v ps))"
  by (simp add: obj_set_def distinct_insert_index distinct_update)

lemma get_prop_obj_set: "get_prop (obj_set k v ps) k' = (if k' = k then v else get_prop ps k')"
  by (simp add: get_prop_def map_of_obj_set)

lemma obj_assign_Nil: "obj_assign t [] = t"
  by (simp add: obj_assign_def)

lemma obj_assign_Cons: "obj_assign t ((k, v) # src) = obj_assign (obj_set k v t) src"
  by (simp add: obj_assign_def)

lemma distinct_obj_assign: "distinct (map fst t) \<Longrightarrow> distinct (map fst (obj_assign t src))"
  by (induction src arbitrary: t) (auto simp: obj_assign_Nil obj_assign_Cons distinct_obj_set)

lemma keys_obj_assign: "fst ` set (obj_assign t src) = fst ` set t \<union> fst ` set src"
proof (induction src arbitrary: t)
  case Nil
  show ?case by (simp add: obj_assign_Nil)
next
  case (Cons p src)
  obtain k v where p: "p = (k, v)" by (cases p)
  show ?case by (simp add: p obj_assign_Cons Cons.IH keys_obj_set)
qed

lemma map_of_obj_assign: "map_of (obj_assign t src) = map_of t ++ map_of (rev src)"
proof (induction src arbitrary: t)
  case Nil
  show ?case by (simp add: obj_assign_Nil)
next
  case (Cons p src)
  obtain k v where p: "p = (k, v)" by (cases p)
  have "map_of (obj_assign t (p # src)) = (map_of t)(k \<mapsto> v) ++ map_of (rev src)"
    by (simp only: p obj_assign_Cons Cons.IH map_of_obj_set)
  also have "\<dots> = map_of t ++ map_of (rev (p # src))"
    by (auto simp: p map_add_def fun_eq_iff split: option.splits)
  finally show ?case .
qed

lemma map_of_rev_distinct: "distinct (map fst ps) \<Longrightarrow> map_of (rev ps) = map_of ps"
  by (rule map_of_inject_set[THEN iffD2]) (simp_all add: rev_map[symmetric])


lemma map_of_filter_key:
  "map_of (filter (\<lambda>(k, _). Q k) ps) k = (if Q k then map_of ps k else None)"
  by (induction ps) auto

lemma distinct_filter_key: "distinct (map fst ps) \<Longrightarrow> distinct (map fst (filter Q ps))"
  by (induction ps) auto

lemma distinct_removeComputedProperties: "distinct (map fst (removeComputedProperties d))"
  by (simp add: removeComputedProperties_def fromEntries_def distinct_obj_assign)

lemma keys_removeComputedProperties:
  "fst ` set (removeComputedProperties d) = {k \<in> fst ` set d. \<not> startsWith k CHR ''_''}"
  by (auto simp: removeComputedProperties_def fromEntries_def keys_obj_assign)

lemma map_of_removeComputedProperties:
  "distinct (map fst d) \<Longrightarrow>
   map_of (removeComputedProperties d) k = (if startsWith k CHR ''_'' then None else map_of d k)"
  by (simp add: removeComputedProperties_def fromEntries_def map_of_obj_assign
      map_of_rev_distinct distinct_filter_key map_of_filter_key)

lemma removeComputedProperties_no_computed:
  "startsWith k CHR ''_'' \<Longrightarrow> map_of (removeComputedProperties d) k = None"
  by (simp add: map_of_eq_None_iff keys_removeComputedProperties)

lemma distinct_updatedDocument: "distinct (map fst (updatedDocument e i ex b))"
  by (simp add: updatedDocument_def distinct_obj_set distinct_obj_assign)

lemma map_of_updatedDocument:
  "map_of (updatedDocument e i ex b) =
     (map_of (removeComputedProperties ex) ++ map_of (removeComputedProperties b))
       (''_id'' \<mapsto> i, ''_lastModified'' \<mapsto> JStr (now e), ''_createdAt'' \<mapsto> get_prop ex ''_createdAt'')"
  by (simp add: updatedDocument_def map_of_obj_set map_of_obj_assign map_of_rev_distinct
      distinct_removeComputedProperties)

lemma merged_fields:
  "map_of (removeComputedProperties (updatedDocument e i ex b)) =
     map_of (removeComputedProperties ex) ++ map_of (removeComputedProperties b)"
proof
  fix k
  show "map_of (removeComputedProperties (updatedDocument e i ex b)) k =
     (map_of (removeComputedProperties ex) ++ map_of (removeComputedProperties b)) k"
  proof (cases "startsWith k CHR ''_''")
    case True
    then show ?thesis
      by (simp add: removeComputedProperties_no_computed map_add_def)
  next
    case False
    then have "k \<noteq> ''_id''" "k \<noteq> ''_lastModified''" "k \<noteq> ''_createdAt''"
      by (auto simp: startsWith_def)
    with False show ?thesis
      by (simp add: map_of_removeComputedProperties distinct_updatedDocument map_of_updatedDocument)
  qed
qed

section \<open>Evaluation of digests and serialisations\<close>

lemma replicate_numeral: "replicate (numeral k) x = x # replicate (pred_numeral k) x"
  by (simp add: numeral_eq_Suc)

lemmas sha_eval = rotr_def Ch_def Maj_def Sigma0_def Sigma1_def sigma0_def sigma1_def add32_def
  K256_def H256_def sha_compress_def be32_def be64_def replicate_numeral sha_pad_def sha256_def
  b64_alphabet_def utf8_def sha256_base64_def

lemmas obj_eval = get_prop_def obj_set_def obj_assign_def fromEntries_def
  removeComputedProperties_def startsWith_def is_array_index_def is_digit_def

lemmas json_eval = json_quote_def json_escape_def decimal_of_int_def decimal_of_nat.simps hex_char_def

text \<open>The standard test vector, and the digests of the JSON texts used below.\<close>

lemma sha256_abc: \<open>sha256_base64 ''abc'' = ''ungWv48Bz+pBQUDeXa4iI7ADYaOWF3qctBD/YfIAFa0=''\<close>
  by (simp add: sha_eval)

lemma sha256_name_a:
  \<open>sha256_base64 ''{"name":"a"}'' = ''2dcZsnSAtVzUkYAg50c+cW7TVpyK2v6SbPmxC0+O8GQ=''\<close>
  by (simp add: sha_eval)

lemma sha256_name_a_rev:
  \<open>sha256_base64 ''{"name":"a","_rev":1}'' = ''PacSiVFYY8PUlKA4dEaSPGGQN+EJXCWfdDc1TY6PICc=''\<close>
  by (simp add: sha_eval)

lemma sha256_name_a_qty:
  \<open>sha256_base64 ''{"name":"a","qty":1}'' = ''12R2OdUk70KUrpb6/EfYMbBdL8eoTiOixxYygM8m/mY=''\<close>
  by (simp add: sha_eval)

lemma sha256_qty_name_a:
  \<open>sha256_base64 ''{"qty":1,"name":"a"}'' = ''VgHMTqa1uC98tsT5MxQ/kn98iMgqWzE2r9+GKZFWA2Q=''\<close>
  by (simp add: sha_eval)

lemma sha256_name_b:
  \<open>sha256_base64 ''{"name":"b"}'' = ''SZD/mb4hPIP9yDl7/KAIr1SAf/ppnOELsTK62mNH+/M=''\<close>
  by (simp add: sha_eval)

lemma sha256_name_b_qty:
  \<open>sha256_base64 ''{"name":"b","qty":1}'' = ''nFi64WgovCJJNoh1WuwTqmQXce5/FxshRGCDEadLLsg=''\<close>
  by (simp add: sha_eval)

lemmas sha_values = sha256_name_a sha256_name_a_rev sha256_name_a_qty sha256_qty_name_a
  sha256_name_b sha256_name_b_qty

lemma currentETag_stored_doc:
  "currentETag example_platform stored_doc = Inr ''12R2OdUk70KUrpb6/EfYMbBdL8eoTiOixxYygM8m/mY=''"
  by (simp add: currentETag_def hash_json_def stored_doc_def example_platform_def obj_eval json_eval
      sha_values)

lemma currentETag_name_first:
  "currentETag example_platform name_first = Inr ''12R2OdUk70KUrpb6/EfYMbBdL8eoTiOixxYygM8m/mY=''"
  by (simp add: currentETag_def hash_json_def name_first_def example_platform_def obj_eval json_eval
      sha_values)

lemma currentETag_qty_first:
  "currentETag example_platform qty_first = Inr ''VgHMTqa1uC98tsT5MxQ/kn98iMgqWzE2r9+GKZFWA2Q=''"
  by (simp add: currentETag_def hash_json_def qty_first_def example_platform_def obj_eval json_eval
      sha_values)

section \<open>The fingerprint and key order\<close>

text \<open>
  C3 (as amended). The fingerprint of a document is determined by its non-computed
  properties in the order in which the document enumerates them: two documents whose
  non-computed properties are the same and come in the same order have equal fingerprints,
  whatever their computed properties are and wherever these sit. The key order itself is
  not canonicalised before serialisation.
\<close>

theorem fingerprint_of_ordered_fields:
  "filter (\<lambda>(key, _). \<not> startsWith key CHR ''_'') d1 = filter (\<lambda>(key, _). \<not> startsWith key CHR ''_'') d2
   \<Longrightarrow> currentETag P d1 = currentETag P d2"
  by (simp add: currentETag_def removeComputedProperties_def)

theorem fingerprint_of_ordered_fields_witness:
  "filter (\<lambda>(key, _). \<not> startsWith key CHR ''_'') stored_doc
     = filter (\<lambda>(key, _). \<not> startsWith key CHR ''_'') name_first
   \<and> currentETag example_platform stored_doc = currentETag example_platform name_first"
  using fingerprint_of_ordered_fields [of stored_doc name_first example_platform]
  by (simp add: stored_doc_def name_first_def startsWith_def)

text \<open>
  C3 as stated fails: \<open>name_first\<close> and \<open>qty_first\<close> have identical non-computed fields and
  values, and different fingerprints.
\<close>

theorem fingerprint_key_order_counterexample:
  "map_of (removeComputedProperties name_first) = map_of (removeComputedProperties qty_first)
   \<and> currentETag example_platform name_first \<noteq> currentETag example_platform qty_first"
proof
  show "map_of (removeComputedProperties name_first) = map_of (removeComputedProperties qty_first)"
    by (auto simp: name_first_def qty_first_def obj_eval fun_eq_iff)
  show "currentETag example_platform name_first \<noteq> currentETag example_platform qty_first"
    by (simp add: currentETag_name_first currentETag_qty_first)
qed

section \<open>Properties of the driver model and of the handlers' branches\<close>

lemmas handler_defs = put_collection_def put_document_def get_collection_def get_document_def
  delete_document_def disconnect_def update_existing_def create_resource_def create_document_def
  rejected_def upsert_failed_def respond_def list_failed_def parse_filter_def set_paging_def
  currentETag_def hash_json_def updatedDocument_def newResource_def newDocument_def
  registry_lookup_def Object_prototype_keys_def falsy_def js_or_def default_config_def
  member_def assign_member_def new_ObjectId_def ObjectId_isValid_def ObjectId_shape_def
  is_lower_hex_def status_of_def

lemmas driver_defs = findOne_def insertOne_def replaceOne_def deleteOne_def find_toArray_def
  close_client_def issue_def has_id_def Let_def

lemmas example_defs = example_platform_def example_env_def example_id_def stored_doc_def
  no_connections_def connected_def example_request_def create_request_def update_request_def

lemma find_has_id: "find (has_id i) ds = Some d \<Longrightarrow> get_prop d ''_id'' = i"
  by (induction ds) (auto simp: has_id_def split: if_splits)

lemma remove_first_none: "find p ds = None \<Longrightarrow> remove_first p ds = ds"
  by (induction ds) (auto split: if_splits)

lemma find_replace_first:
  "find p ds = Some d \<Longrightarrow> p d' \<Longrightarrow> find p (replace_first p d' ds) = Some d'"
  by (induction ds) (auto split: if_splits)


lemma get_prop_updatedDocument:
  "get_prop (updatedDocument e i d b) ''_id'' = i"
  "get_prop (updatedDocument e i d b) ''_createdAt'' = get_prop d ''_createdAt''"
  "get_prop (updatedDocument e i d b) ''_lastModified'' = JStr (now e)"
  by (simp_all add: updatedDocument_def get_prop_obj_set)

lemma status_update_existing: "status (fst (update_existing P e h cn r i d s)) \<noteq> 400"
  by (auto simp: update_existing_def rejected_def upsert_failed_def
      split: sum.splits option.splits prod.splits)

lemma status_create_document: "status (fst (create_document P e h cn r i s)) \<noteq> 400"
  by (auto simp: create_document_def upsert_failed_def split: sum.splits option.splits prod.splits)

lemma calls_update_existing:
  "\<exists>rest. calls (snd (update_existing P e h cn r i d s)) = calls s @ rest"
  by (auto simp: update_existing_def replaceOne_def issue_def Let_def
      split: sum.splits option.splits prod.splits)

lemma calls_create_document:
  "\<exists>rest. calls (snd (create_document P e h cn r i s)) = calls s @ rest"
  by (auto simp: create_document_def insertOne_def issue_def Let_def
      split: sum.splits option.splits prod.splits)

lemma update_existing_204:
  assumes "update_existing P e h cn r i d s = (res, s')" and "status res = 204"
  shows "s' = s\<lparr>calls := calls s @ [ReplaceOne h (databaseName r) (collectionName r) i
                                       (updatedDocument e i d (body r))],
               collections := (collections s)((h, databaseName r, collectionName r) :=
                  replace_first (has_id i) (updatedDocument e i d (body r))
                    (collections s (h, databaseName r, collectionName r)))\<rparr>"
  using assms
  by (auto simp: update_existing_def rejected_def upsert_failed_def replaceOne_def issue_def Let_def
      split: sum.splits option.splits prod.splits if_splits)

lemma create_not_204:
  "create_document P e h cn r i s = (res, s') \<Longrightarrow> status res \<noteq> 204"
  "create_resource P e h cn r s = (res, s') \<Longrightarrow> status res \<noteq> 204"
  by (auto simp: create_document_def create_resource_def upsert_failed_def
      split: sum.splits option.splits prod.splits)

lemma apfst_Responded: "(apfst Responded x = (Responded res, s')) = (x = (res, s'))"
  by (cases x) auto

lemma put_document_204:
  assumes "put_document P e r s = (Responded res, s')" and "status res = 204"
  shows "\<exists>c d. CONNECTED_CLIENTS s (databaseName r) = Some c
      \<and> find (has_id (JOid (mongoId r))) (collections s (client c, databaseName r, collectionName r)) = Some d
      \<and> update_existing P e (client c) (JStr (connectionName c)) r (JOid (mongoId r)) d
           (issue (FindOne (client c) (databaseName r) (collectionName r) (JOid (mongoId r))) s) = (res, s')"
proof -
  from assms obtain c where c: "CONNECTED_CLIENTS s (databaseName r) = Some c"
    and v: "ObjectId_shape (mongoId r)"
    by (auto simp: put_document_def registry_lookup_def new_ObjectId_def respond_def
        split: option.splits if_splits)
  then have ne: "mongoId r \<noteq> []"
    by (auto simp: ObjectId_shape_def)
  show ?thesis
    using assms c v ne
    by (auto simp: put_document_def registry_lookup_def new_ObjectId_def findOne_def
        upsert_failed_def apfst_Responded dest: create_not_204 split: option.splits if_splits)
qed

lemma put_collection_204:
  assumes "put_collection P e r s = (Responded res, s')" and "status res = 204"
  shows "\<exists>c i d. CONNECTED_CLIENTS s (databaseName r) = Some c
      \<and> find (has_id i) (collections s (client c, databaseName r, collectionName r)) = Some d
      \<and> update_existing P e (client c) (JStr (connectionName c)) r i d
           (issue (FindOne (client c) (databaseName r) (collectionName r) i) s) = (res, s')"
  using assms
  by (auto simp: put_collection_def registry_lookup_def findOne_def
      upsert_failed_def respond_def apfst_Responded dest: create_not_204
      split: sum.splits option.splits prod.splits if_splits)







lemma digit_not_sign: "is_digit c \<Longrightarrow> \<not> js_whitespace c \<and> c \<noteq> CHR ''-'' \<and> c \<noteq> CHR ''+''"
  by (auto simp: is_digit_def js_whitespace_def)

lemma parse_digits_Some: "parse_digits u = Some n \<Longrightarrow> \<exists>c cs. u = c # cs \<and> is_digit c"
  by (cases u) (auto simp: parse_digits_def split: list.splits if_splits)

lemma parseInt10_numeral:
  assumes "parse_digits u = Some n"
  shows "parseInt10 u = Some (Number_value False n)"
    and "parseInt10 (CHR ''-'' # u) = Some (Number_value True n)"
proof -
  from parse_digits_Some [OF assms] obtain c cs where u: "u = c # cs" and c: "is_digit c"
    by blast
  from digit_not_sign [OF c] assms show "parseInt10 u = Some (Number_value False n)"
    by (simp add: parseInt10_def u)
  from assms show "parseInt10 (CHR ''-'' # u) = Some (Number_value True n)"
    by (simp add: parseInt10_def js_whitespace_def)
qed


text \<open>Beyond \<open>2^53\<close> the numeral is rounded, and from \<open>2^1024\<close> on it is infinite.\<close>

lemma round_to_double_tie: "round_to_double 9007199254740993 = Some 9007199254740992"
  by (simp add: round_to_double_def bit_length.simps Let_def)

lemma bit_length_upper: "n < 2 ^ bit_length n"
proof (induction n rule: bit_length.induct)
  case (1 n)
  show ?case
  proof (cases "n = 0")
    case True
    then show ?thesis by (simp add: bit_length.simps)
  next
    case False
    with 1 have "n div 2 < 2 ^ bit_length (n div 2)" by simp
    then have "n < 2 * 2 ^ bit_length (n div 2)" by linarith
    with False show ?thesis by (simp add: bit_length.simps [of n])
  qed
qed

lemma bit_length_lower: "n \<noteq> 0 \<Longrightarrow> 2 ^ (bit_length n - 1) \<le> n"
proof (induction n rule: bit_length.induct)
  case (1 n)
  show ?case
  proof (cases "n div 2 = 0")
    case True
    with 1(2) show ?thesis by (simp add: bit_length.simps [of n] bit_length.simps [of 0])
  next
    case False
    with 1 have "2 ^ (bit_length (n div 2) - 1) \<le> n div 2" by simp
    then have "2 * 2 ^ (bit_length (n div 2) - 1) \<le> n" by linarith
    moreover from False have "bit_length (n div 2) \<noteq> 0" by (simp add: bit_length.simps [of "n div 2"])
    then have "2 * (2::nat) ^ (bit_length (n div 2) - 1) = 2 ^ bit_length (n div 2)"
      by (cases "bit_length (n div 2)") simp_all
    ultimately show ?thesis using 1(2) by (simp add: bit_length.simps [of n])
  qed
qed

lemma truncated_significand_large:
  assumes "2 ^ k \<le> n" and "53 \<le> k"
  shows "(2::nat) ^ k \<le> (n div 2 ^ (bit_length n - 53)) * 2 ^ (bit_length n - 53)"
proof -
  let ?b = "bit_length n"
  let ?e = "?b - 53"
  have "(0::nat) < 2 ^ k" by simp
  with assms(1) have n0: "n \<noteq> 0" by linarith
  have "(2::nat) ^ k < 2 ^ ?b"
    using assms(1) bit_length_upper [of n] by linarith
  then have b: "k < ?b"
    by (rule power_less_imp_less_exp [rotated]) simp
  with assms(2) have e: "52 + ?e = ?b - 1" and ke: "k \<le> 52 + ?e"
    by simp_all
  have "(2::nat) ^ 52 * 2 ^ ?e = 2 ^ (?b - 1)"
    by (simp only: power_add [symmetric] e)
  also have "\<dots> \<le> n" by (rule bit_length_lower [OF n0])
  finally have "(2::nat) ^ 52 * 2 ^ ?e \<le> n" .
  then have q: "(2::nat) ^ 52 \<le> n div 2 ^ ?e"
    by (simp only: less_eq_div_iff_mult_less_eq zero_less_power zero_less_numeral)
  have "(2::nat) ^ k \<le> 2 ^ (52 + ?e)"
    using ke by (intro power_increasing) simp_all
  also have "\<dots> = 2 ^ 52 * 2 ^ ?e"
    by (simp only: power_add)
  also have "\<dots> \<le> (n div 2 ^ ?e) * 2 ^ ?e"
    using q by (rule mult_right_mono) simp
  finally show ?thesis .
qed

lemma round_to_double_overflow:
  assumes "2 ^ 1024 \<le> n"
  shows "round_to_double n = None"
proof -
  let ?e = "bit_length n - 53"
  let ?q = "n div 2 ^ ?e"
  have "(2::nat) ^ 53 \<le> 2 ^ 1024"
    by (intro power_increasing) simp_all
  with assms have a: "\<not> n < 2 ^ 53"
    by linarith
  have low: "(2::nat) ^ 1024 \<le> ?q * 2 ^ ?e"
    using assms by (rule truncated_significand_large) simp
  have "?q * 2 ^ ?e \<le> (?q + 1) * 2 ^ ?e"
    by (rule mult_right_mono) simp_all
  with low have up: "(2::nat) ^ 1024 \<le> (?q + 1) * 2 ^ ?e"
    by (rule order_trans)
  from low have c0: "\<not> ?q * 2 ^ ?e < 2 ^ 1024"
    by (simp only: not_less)
  from up have c1: "\<not> (?q + 1) * 2 ^ ?e < 2 ^ 1024"
    by (simp only: not_less)
  show ?thesis
  proof (cases "2 ^ ?e < 2 * (n mod 2 ^ ?e) \<or> (2 * (n mod 2 ^ ?e) = 2 ^ ?e \<and> odd ?q)")
    case True
    then show ?thesis
      by (simp only: round_to_double_def Let_def a c1 if_True if_False)
  next
    case False
    then show ?thesis
      by (simp only: round_to_double_def Let_def a c0 if_True if_False)
  qed
qed

lemma parseInt_or_0_infinite:
  assumes "parse_digits u = Some n" and "2 ^ 1024 \<le> n"
  shows "parseInt_or_0 (Some u) = JInfinity"
    and "parseInt_or_0 (Some (CHR ''-'' # u)) = JMinusInfinity"
  by (simp_all add: parseInt_or_0_def parseInt10_numeral [OF assms(1)] Number_value_def
      round_to_double_overflow [OF assms(2)] js_or_def)


text \<open>
  A database name without a registry entry and outside the keys of \<open>Object.prototype\<close>
  makes every handler throw before its \<open>try\<close> block is entered.
\<close>

lemma missing_entry_escapes:
  assumes "CONNECTED_CLIENTS s (databaseName r) = None"
    and "databaseName r \<notin> set Object_prototype_keys"
  shows "put_collection P e r s = (Uncaught TypeError, s)"
    and "put_document P e r s = (Uncaught TypeError, s)"
    and "get_collection P r s = (Uncaught TypeError, s)"
    and "get_document r s = (Uncaught TypeError, s)"
    and "delete_document r s = (Uncaught TypeError, s)"
    and "databaseName r \<noteq> [] \<Longrightarrow> disconnect r s = (Uncaught TypeError, s)"
  using assms
  by (simp_all add: put_collection_def put_document_def get_collection_def get_document_def
      delete_document_def disconnect_def registry_lookup_def)

section \<open>Upsert: the ETag of a create and of an update\<close>

text \<open>
  C1. The claim: on the create path the ETag of the 201 response equals the fingerprint over
  the stripped body. The code hashes \<open>JSON.stringify(req.body)\<close>, the raw body, although it
  has just computed the stripped one. For the body \<open>{"name":"a","_rev":1}\<close> both PUT
  handlers answer 201 with the digest of the raw text, the fingerprint over the stripped body
  and of the document just stored is the digest of \<open>{"name":"a"}\<close>, and a conditional update
  that presents the advertised ETag is refused with 412.
\<close>

theorem create_etag_hashes_raw_body:
  "fst (put_document example_platform example_env create_request (connected [])) =
     Responded \<lparr>status = 201, ETag = Some ''PacSiVFYY8PUlKA4dEaSPGGQN+EJXCWfdDc1TY6PICc='',
                Last_Modified = Some ''2024-05-01T10:00:00.000Z'',
                json = JObj [(''_id'', JOid ''0123456789abcdef01234567'')]\<rparr>
   \<and> fst (put_collection example_platform example_env create_request (connected [])) =
     Responded \<lparr>status = 201, ETag = Some ''PacSiVFYY8PUlKA4dEaSPGGQN+EJXCWfdDc1TY6PICc='',
                Last_Modified = Some ''2024-05-01T10:00:00.000Z'',
                json = JObj [(''_id'', JOid ''65f0a1b2c3d4e5f601234567'')]\<rparr>
   \<and> hash_json example_platform (JObj (removeComputedProperties (body create_request))) =
     Inr ''2dcZsnSAtVzUkYAg50c+cW7TVpyK2v6SbPmxC0+O8GQ=''
   \<and> map (currentETag example_platform)
         (collections (snd (put_document example_platform example_env create_request (connected [])))
            (0, ''shop'', ''items'')) =
     [Inr ''2dcZsnSAtVzUkYAg50c+cW7TVpyK2v6SbPmxC0+O8GQ='']
   \<and> status_of (put_document example_platform example_env
         (create_request\<lparr>if_match := Some ''PacSiVFYY8PUlKA4dEaSPGGQN+EJXCWfdDc1TY6PICc=''\<rparr>)
         (snd (put_document example_platform example_env create_request (connected [])))) = Some 412"
  by (simp add: handler_defs driver_defs example_defs obj_eval json_eval sha_values)

text \<open>
  C2. The claim: on a successful conditional update the ETag of the 204 response equals the
  fingerprint over the merged non-computed fields of the replaced document. The code hashes
  \<open>JSON.stringify(nonComputedBody)\<close>, the stripped request body alone. Updating
  \<open>{"name":"a","qty":1}\<close> with the body \<open>{"name":"b"}\<close>, both PUT handlers answer 204 with the
  digest of \<open>{"name":"b"}\<close>; the replaced document has the fingerprint of
  \<open>{"name":"b","qty":1}\<close>, and a further update that presents the advertised ETag is refused
  with 412.
\<close>

theorem update_etag_hashes_request_body:
  "fst (put_document example_platform example_env update_request (connected [stored_doc])) =
     Responded \<lparr>status = 204, ETag = Some ''SZD/mb4hPIP9yDl7/KAIr1SAf/ppnOELsTK62mNH+/M='',
                Last_Modified = Some ''2024-05-01T10:00:00.000Z'', json = JUndefined\<rparr>
   \<and> fst (put_collection example_platform example_env update_request (connected [stored_doc])) =
     Responded \<lparr>status = 204, ETag = Some ''SZD/mb4hPIP9yDl7/KAIr1SAf/ppnOELsTK62mNH+/M='',
                Last_Modified = Some ''2024-05-01T10:00:00.000Z'', json = JUndefined\<rparr>
   \<and> map (currentETag example_platform)
         (collections (snd (put_document example_platform example_env update_request (connected [stored_doc])))
            (0, ''shop'', ''items'')) =
     [Inr ''nFi64WgovCJJNoh1WuwTqmQXce5/FxshRGCDEadLLsg='']
   \<and> status_of (put_document example_platform example_env
         (update_request\<lparr>if_match := Some ''SZD/mb4hPIP9yDl7/KAIr1SAf/ppnOELsTK62mNH+/M=''\<rparr>)
         (snd (put_document example_platform example_env update_request (connected [stored_doc])))) = Some 412"
  by (simp add: handler_defs driver_defs example_defs obj_eval json_eval sha_values)

section \<open>Upsert: rejected preconditions\<close>

text \<open>
  C4 (as amended). An upsert that targets an existing document whose stored timestamp
  (\<open>_lastModified\<close>, else \<open>_createdAt\<close>) can be rendered as a date is answered 409 when the
  \<open>If-Match\<close> header is absent or empty, and 412 when it is non-empty and differs from the
  current fingerprint. In both cases the response carries the fingerprint of the stored
  document's non-computed fields as its ETag, and the only call issued to the backend is the
  lookup: the collections are unchanged. This holds for the route with the identifier in the
  path and for the route that reads it from the body.
\<close>

theorem precondition_rejections:
  fixes P e r s c d t lm
  defines "rejection \<equiv>
     (Responded \<lparr>status = (if falsy (if_match r) then 409 else 412), ETag = Some t,
                  Last_Modified = Some lm, json = JObj []\<rparr>,
      s\<lparr>calls := calls s @ [FindOne (client c) (databaseName r) (collectionName r) (JOid (mongoId r))]\<rparr>)"
  assumes "CONNECTED_CLIENTS s (databaseName r) = Some c" and "reachable s (client c)"
    and "ObjectId_shape (mongoId r)"
    and "find (has_id (JOid (mongoId r))) (collections s (client c, databaseName r, collectionName r)) = Some d"
    and "currentETag P d = Inr t"
    and "if_match r \<noteq> Some t"
    and "Date_toISOString P (js_or (get_prop d ''_lastModified'') (get_prop d ''_createdAt'')) = Some lm"
  shows "put_document P e r s = rejection
       \<and> (get_prop (body r) ''_id'' = JStr (mongoId r) \<longrightarrow> put_collection P e r s = rejection)"
proof -
  have ne: "mongoId r \<noteq> []"
    using assms by (auto simp: ObjectId_shape_def)
  have u: "update_existing P e (client c) (JStr (connectionName c)) r (JOid (mongoId r)) d s0 =
     (\<lparr>status = (if falsy (if_match r) then 409 else 412), ETag = Some t,
                  Last_Modified = Some lm, json = JObj []\<rparr>, s0)" for s0
    using assms by (auto simp: update_existing_def rejected_def)
  show ?thesis
    using assms ne
    by (auto simp: put_document_def put_collection_def registry_lookup_def new_ObjectId_def
        findOne_def issue_def u)
qed

theorem precondition_rejections_witness:
  "CONNECTED_CLIENTS (connected [stored_doc]) (databaseName (update_request\<lparr>if_match := Some ''stale''\<rparr>))
     = Some \<lparr>client = 0, connectionName = ''happy-cat''\<rparr>
   \<and> reachable (connected [stored_doc]) 0
   \<and> ObjectId_shape (mongoId (update_request\<lparr>if_match := Some ''stale''\<rparr>))
   \<and> find (has_id (JOid (mongoId (update_request\<lparr>if_match := Some ''stale''\<rparr>))))
        (collections (connected [stored_doc]) (0, ''shop'', ''items'')) = Some stored_doc
   \<and> currentETag example_platform stored_doc = Inr ''12R2OdUk70KUrpb6/EfYMbBdL8eoTiOixxYygM8m/mY=''
   \<and> if_match (update_request\<lparr>if_match := Some ''stale''\<rparr>) \<noteq> Some ''12R2OdUk70KUrpb6/EfYMbBdL8eoTiOixxYygM8m/mY=''
   \<and> Date_toISOString example_platform
        (js_or (get_prop stored_doc ''_lastModified'') (get_prop stored_doc ''_createdAt''))
       = Some ''2024-04-01T09:00:00.000Z''
   \<and> put_document example_platform example_env (update_request\<lparr>if_match := Some ''stale''\<rparr>)
        (connected [stored_doc]) =
      (Responded \<lparr>status = 412, ETag = Some ''12R2OdUk70KUrpb6/EfYMbBdL8eoTiOixxYygM8m/mY='',
                   Last_Modified = Some ''2024-04-01T09:00:00.000Z'', json = JObj []\<rparr>,
       (connected [stored_doc])\<lparr>calls := [FindOne 0 ''shop'' ''items'' (JOid example_id)]\<rparr>)"
proof -
  let ?r = "update_request\<lparr>if_match := Some ''stale''\<rparr>"
  let ?s = "connected [stored_doc]"
  let ?c = "\<lparr>client = 0, connectionName = ''happy-cat''\<rparr>"
  have h1: "CONNECTED_CLIENTS ?s (databaseName ?r) = Some ?c"
    by (simp add: example_defs)
  have h2: "reachable ?s (client ?c)"
    by (simp add: example_defs)
  have h3: "ObjectId_shape (mongoId ?r)"
    by (simp add: example_defs ObjectId_shape_def is_lower_hex_def)
  have h4: "find (has_id (JOid (mongoId ?r)))
      (collections ?s (client ?c, databaseName ?r, collectionName ?r)) = Some stored_doc"
    by (simp add: example_defs has_id_def get_prop_def)
  have h6: "if_match ?r \<noteq> Some ''12R2OdUk70KUrpb6/EfYMbBdL8eoTiOixxYygM8m/mY=''"
    by (simp add: example_defs)
  have h7: "Date_toISOString example_platform
      (js_or (get_prop stored_doc ''_lastModified'') (get_prop stored_doc ''_createdAt''))
      = Some ''2024-04-01T09:00:00.000Z''"
    by (simp add: example_defs js_or_def get_prop_def)
  have w: "put_document example_platform example_env ?r ?s =
      (Responded \<lparr>status = 412, ETag = Some ''12R2OdUk70KUrpb6/EfYMbBdL8eoTiOixxYygM8m/mY='',
                   Last_Modified = Some ''2024-04-01T09:00:00.000Z'', json = JObj []\<rparr>,
       ?s\<lparr>calls := [FindOne 0 ''shop'' ''items'' (JOid example_id)]\<rparr>)"
    using precondition_rejections [OF h1 h2 h3 h4 currentETag_stored_doc h6 h7, of example_env]
    by (simp add: example_defs falsy_def)
  show ?thesis
  proof (intro conjI)
    show "CONNECTED_CLIENTS ?s (databaseName ?r) = Some ?c" by (rule h1)
    show "reachable ?s 0" using h2 by simp
    show "ObjectId_shape (mongoId ?r)" by (rule h3)
    show "find (has_id (JOid (mongoId ?r))) (collections ?s (0, ''shop'', ''items'')) = Some stored_doc"
      using h4 by (simp add: example_defs)
    show "currentETag example_platform stored_doc = Inr ''12R2OdUk70KUrpb6/EfYMbBdL8eoTiOixxYygM8m/mY=''"
      by (rule currentETag_stored_doc)
    show "if_match ?r \<noteq> Some ''12R2OdUk70KUrpb6/EfYMbBdL8eoTiOixxYygM8m/mY=''" by (rule h6)
    show "Date_toISOString example_platform
        (js_or (get_prop stored_doc ''_lastModified'') (get_prop stored_doc ''_createdAt''))
        = Some ''2024-04-01T09:00:00.000Z''" by (rule h7)
    show "put_document example_platform example_env ?r ?s =
      (Responded \<lparr>status = 412, ETag = Some ''12R2OdUk70KUrpb6/EfYMbBdL8eoTiOixxYygM8m/mY='',
                   Last_Modified = Some ''2024-04-01T09:00:00.000Z'', json = JObj []\<rparr>,
       ?s\<lparr>calls := [FindOne 0 ''shop'' ''items'' (JOid example_id)]\<rparr>)" by (rule w)
  qed
qed

text \<open>
  C4 as stated fails. An \<open>If-Match\<close> header that is present, empty, and therefore different
  from the current fingerprint is answered 409 by both handlers, not 412, because the code
  tests \<open>!ifMatch\<close>. And a stored document that has neither \<open>_lastModified\<close> nor
  \<open>_createdAt\<close> is answered 500: rendering the date throws after the ETag header was set.
\<close>

theorem empty_if_match_counterexample:
  "currentETag example_platform stored_doc = Inr ''12R2OdUk70KUrpb6/EfYMbBdL8eoTiOixxYygM8m/mY=''
   \<and> fst (put_document example_platform example_env (update_request\<lparr>if_match := Some []\<rparr>)
          (connected [stored_doc])) =
     Responded \<lparr>status = 409, ETag = Some ''12R2OdUk70KUrpb6/EfYMbBdL8eoTiOixxYygM8m/mY='',
                Last_Modified = Some ''2024-04-01T09:00:00.000Z'', json = JObj []\<rparr>
   \<and> fst (put_collection example_platform example_env (update_request\<lparr>if_match := Some []\<rparr>)
          (connected [stored_doc])) =
     Responded \<lparr>status = 409, ETag = Some ''12R2OdUk70KUrpb6/EfYMbBdL8eoTiOixxYygM8m/mY='',
                Last_Modified = Some ''2024-04-01T09:00:00.000Z'', json = JObj []\<rparr>
   \<and> fst (put_document example_platform example_env (update_request\<lparr>if_match := None\<rparr>)
          (connected [name_first])) =
     Responded \<lparr>status = 500, ETag = Some ''12R2OdUk70KUrpb6/EfYMbBdL8eoTiOixxYygM8m/mY='',
                Last_Modified = None, json = JObj [(''name'', JStr ''happy-cat'')]\<rparr>"
  by (simp add: handler_defs driver_defs example_defs name_first_def obj_eval json_eval sha_values)

section \<open>Databases without a registry entry\<close>

text \<open>
  C5. The claim: for a database name with no registry entry, Upsert, List, GetById,
  DeleteById and Disconnect respond 404 and leave registry and backend unchanged. Every
  handler guards with \<open>if (!client)\<close> and a 404, but it first destructures
  \<open>CONNECTED_CLIENTS[databaseName]\<close>, outside its \<open>try\<close> block; for the name \<open>nope\<close> and an empty
  registry that value is \<open>undefined\<close>, the destructuring throws a TypeError, and no handler
  answers at all. The state is unchanged.
\<close>

theorem missing_entry_throws:
  "put_collection example_platform example_env (example_request\<lparr>databaseName := ''nope''\<rparr>) no_connections
     = (Uncaught TypeError, no_connections)
   \<and> put_document example_platform example_env (example_request\<lparr>databaseName := ''nope''\<rparr>) no_connections
     = (Uncaught TypeError, no_connections)
   \<and> get_collection example_platform (example_request\<lparr>databaseName := ''nope''\<rparr>) no_connections
     = (Uncaught TypeError, no_connections)
   \<and> get_document (example_request\<lparr>databaseName := ''nope''\<rparr>) no_connections
     = (Uncaught TypeError, no_connections)
   \<and> delete_document (example_request\<lparr>databaseName := ''nope''\<rparr>) no_connections
     = (Uncaught TypeError, no_connections)
   \<and> disconnect (example_request\<lparr>databaseName := ''nope''\<rparr>) no_connections
     = (Uncaught TypeError, no_connections)"
  by (simp add: put_collection_def put_document_def get_collection_def get_document_def
      delete_document_def disconnect_def registry_lookup_def Object_prototype_keys_def
      example_request_def no_connections_def)

section \<open>Conditional update: what is written\<close>

text \<open>
  C6. Every successful conditional update (a 204 from either PUT handler) found a document
  \<open>d\<close> with the requested identifier and replaced it, in its collection and nowhere else,
  by \<open>updatedDocument\<close>: its \<open>_id\<close> and \<open>_createdAt\<close> are those of \<open>d\<close>, its \<open>_lastModified\<close> is
  the time of the update, and its non-computed fields are those of \<open>d\<close> overridden by those
  of the stripped request body (the request wins on every key collision).
\<close>

theorem conditional_update_effect:
  assumes "put_document P e r s = (Responded res, s') \<or> put_collection P e r s = (Responded res, s')"
    and "status res = 204"
  shows "\<exists>c i d.
      CONNECTED_CLIENTS s (databaseName r) = Some c
    \<and> find (has_id i) (collections s (client c, databaseName r, collectionName r)) = Some d
    \<and> collections s' = (collections s)((client c, databaseName r, collectionName r) :=
         replace_first (has_id i) (updatedDocument e i d (body r))
           (collections s (client c, databaseName r, collectionName r)))
    \<and> find (has_id i) (collections s' (client c, databaseName r, collectionName r))
         = Some (updatedDocument e i d (body r))
    \<and> get_prop (updatedDocument e i d (body r)) ''_id'' = get_prop d ''_id''
    \<and> get_prop (updatedDocument e i d (body r)) ''_createdAt'' = get_prop d ''_createdAt''
    \<and> get_prop (updatedDocument e i d (body r)) ''_lastModified'' = JStr (now e)
    \<and> map_of (removeComputedProperties (updatedDocument e i d (body r)))
         = map_of (removeComputedProperties d) ++ map_of (removeComputedProperties (body r))"
proof -
  from assms obtain c i d where
    c: "CONNECTED_CLIENTS s (databaseName r) = Some c"
    and d: "find (has_id i) (collections s (client c, databaseName r, collectionName r)) = Some d"
    and u: "update_existing P e (client c) (JStr (connectionName c)) r i d
           (issue (FindOne (client c) (databaseName r) (collectionName r) i) s) = (res, s')"
    using put_document_204 [of P e r s res s'] put_collection_204 [of P e r s res s'] by blast
  let ?ud = "updatedDocument e i d (body r)"
  let ?key = "(client c, databaseName r, collectionName r)"
  have s': "collections s' = (collections s)(?key := replace_first (has_id i) ?ud (collections s ?key))"
    using update_existing_204 [OF u assms(2)] by (simp add: issue_def)
  have "has_id i ?ud"
    by (simp add: has_id_def get_prop_updatedDocument)
  with d have f: "find (has_id i) (collections s' ?key) = Some ?ud"
    by (simp add: s' find_replace_first)
  have "get_prop ?ud ''_id'' = get_prop d ''_id''"
    using find_has_id [OF d] by (simp add: get_prop_updatedDocument)
  with c d s' f show ?thesis
    by (intro exI [of _ c] exI [of _ i] exI [of _ d])
       (simp add: get_prop_updatedDocument merged_fields)
qed

theorem conditional_update_effect_witness:
  "(put_document example_platform example_env update_request (connected [stored_doc]) =
      (Responded \<lparr>status = 204, ETag = Some ''SZD/mb4hPIP9yDl7/KAIr1SAf/ppnOELsTK62mNH+/M='',
                   Last_Modified = Some ''2024-05-01T10:00:00.000Z'', json = JUndefined\<rparr>,
       snd (put_document example_platform example_env update_request (connected [stored_doc])))
    \<or> put_collection example_platform example_env update_request (connected [stored_doc]) =
      (Responded \<lparr>status = 204, ETag = Some ''SZD/mb4hPIP9yDl7/KAIr1SAf/ppnOELsTK62mNH+/M='',
                   Last_Modified = Some ''2024-05-01T10:00:00.000Z'', json = JUndefined\<rparr>,
       snd (put_document example_platform example_env update_request (connected [stored_doc]))))
   \<and> status \<lparr>status = 204, ETag = Some ''SZD/mb4hPIP9yDl7/KAIr1SAf/ppnOELsTK62mNH+/M='',
               Last_Modified = Some ''2024-05-01T10:00:00.000Z'', json = JUndefined\<rparr> = 204
   \<and> (\<exists>c i d.
      CONNECTED_CLIENTS (connected [stored_doc]) (databaseName update_request) = Some c
    \<and> find (has_id i) (collections (connected [stored_doc])
          (client c, databaseName update_request, collectionName update_request)) = Some d
    \<and> collections (snd (put_document example_platform example_env update_request (connected [stored_doc])))
        = (collections (connected [stored_doc]))
            ((client c, databaseName update_request, collectionName update_request) :=
               replace_first (has_id i) (updatedDocument example_env i d (body update_request))
                 (collections (connected [stored_doc])
                    (client c, databaseName update_request, collectionName update_request)))
    \<and> find (has_id i)
          (collections (snd (put_document example_platform example_env update_request (connected [stored_doc])))
             (client c, databaseName update_request, collectionName update_request))
         = Some (updatedDocument example_env i d (body update_request))
    \<and> get_prop (updatedDocument example_env i d (body update_request)) ''_id'' = get_prop d ''_id''
    \<and> get_prop (updatedDocument example_env i d (body update_request)) ''_createdAt''
         = get_prop d ''_createdAt''
    \<and> get_prop (updatedDocument example_env i d (body update_request)) ''_lastModified''
         = JStr (now example_env)
    \<and> map_of (removeComputedProperties (updatedDocument example_env i d (body update_request)))
         = map_of (removeComputedProperties d) ++ map_of (removeComputedProperties (body update_request)))"
proof -
  let ?res = "\<lparr>status = 204, ETag = Some ''SZD/mb4hPIP9yDl7/KAIr1SAf/ppnOELsTK62mNH+/M='',
               Last_Modified = Some ''2024-05-01T10:00:00.000Z'', json = JUndefined\<rparr>"
  let ?s' = "snd (put_document example_platform example_env update_request (connected [stored_doc]))"
  have "put_document example_platform example_env update_request (connected [stored_doc])
      = (Responded ?res, ?s')"
    by (simp add: handler_defs driver_defs example_defs obj_eval json_eval sha_values)
  then have a: "put_document example_platform example_env update_request (connected [stored_doc])
      = (Responded ?res, ?s')
    \<or> put_collection example_platform example_env update_request (connected [stored_doc])
      = (Responded ?res, ?s')" ..
  have b: "status ?res = 204"
    by simp
  show ?thesis
    using a b conditional_update_effect [OF a b] by (intro conjI)
qed

section \<open>Identifier validation\<close>

text \<open>
  C7 (as amended). On a database that has a registry entry, GetById, Upsert with an
  identifier in the path and DeleteById answer 400, without any backend call or change of
  state, for exactly the raw identifiers the \<open>ObjectId\<close> check rejects, which the spec gives as
  every string that does not consist of 24 lower-case hexadecimal characters; an identifier of
  that shape is accepted: the handler is not answered 400 and goes on to query the backend
  with the parsed identifier.
\<close>

theorem identifier_validation:
  assumes "CONNECTED_CLIENTS s (databaseName r) = Some c"
  shows "if ObjectId_shape (mongoId r)
         then status_of (get_document r s) \<noteq> Some 400
            \<and> status_of (put_document P e r s) \<noteq> Some 400
            \<and> status_of (delete_document r s) \<noteq> Some 400
            \<and> calls (snd (get_document r s)) =
                 calls s @ [FindOne (client c) (databaseName r) (collectionName r) (JOid (mongoId r))]
            \<and> (\<exists>rest. calls (snd (put_document P e r s)) =
                 calls s @ FindOne (client c) (databaseName r) (collectionName r) (JOid (mongoId r)) # rest)
            \<and> calls (snd (delete_document r s)) =
                 calls s @ [DeleteOne (client c) (databaseName r) (collectionName r) (JOid (mongoId r))]
         else get_document r s = (Responded (respond 400 (JObj [(''name'', JStr (connectionName c))])), s)
            \<and> put_document P e r s = (Responded (respond 400 (JObj [(''name'', JStr (connectionName c))])), s)
            \<and> delete_document r s = (Responded (respond 400 (JObj [(''name'', JStr (connectionName c))])), s)"
proof (cases "ObjectId_shape (mongoId r)")
  case False
  with assms show ?thesis
    by (simp add: get_document_def put_document_def delete_document_def registry_lookup_def
        new_ObjectId_def ObjectId_isValid_def)
next
  case True
  then have ne: "mongoId r \<noteq> []"
    by (auto simp: ObjectId_shape_def)
  have g: "status_of (get_document r s) \<noteq> Some 400
      \<and> calls (snd (get_document r s)) =
           calls s @ [FindOne (client c) (databaseName r) (collectionName r) (JOid (mongoId r))]"
    using assms True
    by (auto simp: status_of_def get_document_def registry_lookup_def new_ObjectId_def
        ObjectId_isValid_def findOne_def issue_def respond_def split: option.splits)
  have d: "status_of (delete_document r s) \<noteq> Some 400
      \<and> calls (snd (delete_document r s)) =
           calls s @ [DeleteOne (client c) (databaseName r) (collectionName r) (JOid (mongoId r))]"
    using assms True
    by (auto simp: status_of_def delete_document_def registry_lookup_def new_ObjectId_def
        deleteOne_def issue_def respond_def Let_def split: option.splits)
  have p1: "status_of (put_document P e r s) \<noteq> Some 400"
    using assms True ne
    by (auto simp: status_of_def put_document_def registry_lookup_def new_ObjectId_def
        findOne_def upsert_failed_def status_update_existing status_create_document
        split: option.splits)
  have p2: "\<exists>rest. calls (snd (put_document P e r s)) =
       calls s @ FindOne (client c) (databaseName r) (collectionName r) (JOid (mongoId r)) # rest"
    using assms True ne
      calls_update_existing [of P e "client c" "JStr (connectionName c)" r "JOid (mongoId r)" _
         "issue (FindOne (client c) (databaseName r) (collectionName r) (JOid (mongoId r))) s"]
      calls_create_document [of P e "client c" "JStr (connectionName c)" r "JOid (mongoId r)"
         "issue (FindOne (client c) (databaseName r) (collectionName r) (JOid (mongoId r))) s"]
    by (auto simp: put_document_def registry_lookup_def new_ObjectId_def
        findOne_def issue_def split: option.splits)
  from True g d p1 p2 show ?thesis by simp
qed

theorem identifier_validation_witness:
  "CONNECTED_CLIENTS (connected [stored_doc]) ''shop'' = Some \<lparr>client = 0, connectionName = ''happy-cat''\<rparr>
   \<and> ObjectId_shape ''0123456789abcdef01234567''
   \<and> status_of (get_document example_request (connected [stored_doc])) \<noteq> Some 400
   \<and> status_of (put_document example_platform example_env example_request (connected [stored_doc])) \<noteq> Some 400
   \<and> status_of (delete_document example_request (connected [stored_doc])) \<noteq> Some 400
   \<and> \<not> ObjectId_shape ''not-an-id''
   \<and> get_document (example_request\<lparr>mongoId := ''not-an-id''\<rparr>) (connected [stored_doc])
       = (Responded (respond 400 (JObj [(''name'', JStr ''happy-cat'')])), connected [stored_doc])
   \<and> put_document example_platform example_env (example_request\<lparr>mongoId := ''not-an-id''\<rparr>)
         (connected [stored_doc])
       = (Responded (respond 400 (JObj [(''name'', JStr ''happy-cat'')])), connected [stored_doc])
   \<and> delete_document (example_request\<lparr>mongoId := ''not-an-id''\<rparr>) (connected [stored_doc])
       = (Responded (respond 400 (JObj [(''name'', JStr ''happy-cat'')])), connected [stored_doc])"
proof -
  let ?s = "connected [stored_doc]"
  let ?c = "\<lparr>client = 0, connectionName = ''happy-cat''\<rparr>"
  let ?bad = "example_request\<lparr>mongoId := ''not-an-id''\<rparr>"
  have h: "CONNECTED_CLIENTS ?s ''shop'' = Some ?c"
    by (simp add: connected_def)
  have h1: "CONNECTED_CLIENTS ?s (databaseName example_request) = Some ?c"
    by (simp add: connected_def example_request_def)
  have h2: "CONNECTED_CLIENTS ?s (databaseName ?bad) = Some ?c"
    by (simp add: connected_def example_request_def)
  have v1: "ObjectId_shape ''0123456789abcdef01234567''"
    by (simp add: ObjectId_shape_def is_lower_hex_def)
  have v2: "\<not> ObjectId_shape ''not-an-id''"
    by (simp add: ObjectId_shape_def)
  have m1: "mongoId example_request = ''0123456789abcdef01234567''"
    by (simp add: example_request_def example_id_def)
  have m2: "mongoId ?bad = ''not-an-id''"
    by simp
  have good: "status_of (get_document example_request ?s) \<noteq> Some 400
      \<and> status_of (put_document example_platform example_env example_request ?s) \<noteq> Some 400
      \<and> status_of (delete_document example_request ?s) \<noteq> Some 400"
    using identifier_validation [OF h1, of example_platform example_env] v1
    by (simp only: m1 if_True) blast
  have bad: "get_document ?bad ?s = (Responded (respond 400 (JObj [(''name'', JStr ''happy-cat'')])), ?s)
      \<and> put_document example_platform example_env ?bad ?s
           = (Responded (respond 400 (JObj [(''name'', JStr ''happy-cat'')])), ?s)
      \<and> delete_document ?bad ?s = (Responded (respond 400 (JObj [(''name'', JStr ''happy-cat'')])), ?s)"
    using identifier_validation [OF h2, of example_platform example_env] v2
    by (simp only: m2 if_False) simp
  from h v1 v2 good bad show ?thesis
    by blast
qed

text \<open>
  C7 as stated fails: a malformed identifier is not answered 400 on every request. Without
  a registry entry all three handlers throw before they look at the identifier; and GetById
  tests \<open>client\<close> before the identifier, so for a name that resolves to a value without a
  \<open>client\<close> (a key of \<open>Object.prototype\<close>) it answers 404.
\<close>

theorem identifier_validation_counterexample:
  "\<not> ObjectId_shape ''not-an-id''
   \<and> get_document (example_request\<lparr>databaseName := ''nope'', mongoId := ''not-an-id''\<rparr>) no_connections
       = (Uncaught TypeError, no_connections)
   \<and> put_document example_platform example_env
         (example_request\<lparr>databaseName := ''nope'', mongoId := ''not-an-id''\<rparr>) no_connections
       = (Uncaught TypeError, no_connections)
   \<and> delete_document (example_request\<lparr>databaseName := ''nope'', mongoId := ''not-an-id''\<rparr>) no_connections
       = (Uncaught TypeError, no_connections)
   \<and> status_of (get_document (example_request\<lparr>databaseName := ''constructor'', mongoId := ''not-an-id''\<rparr>)
         no_connections) = Some 404"
  by (simp add: get_document_def put_document_def delete_document_def registry_lookup_def
      Object_prototype_keys_def example_request_def no_connections_def ObjectId_shape_def
      status_of_def respond_def)

section \<open>Deleting a document\<close>

text \<open>
  C8. On a connected database whose backend answers, DeleteById with a well-formed identifier
  issues one \<open>deleteOne\<close>: when a document has the identifier it answers 204 and the first
  such document is removed; when none has, it answers 404 and the collection stays as it was.
  The deletion is unconditional: the handler has no access to the digest, and its outcome
  does not depend on the \<open>If-Match\<close> header or on the body of the request.
\<close>

theorem delete_document_unconditional:
  assumes "CONNECTED_CLIENTS s (databaseName r) = Some c" and "ObjectId_shape (mongoId r)"
    and "reachable s (client c)"
  shows "delete_document r s =
     (case find (has_id (JOid (mongoId r))) (collections s (client c, databaseName r, collectionName r)) of
        None \<Rightarrow>
          (Responded (respond 404 (JObj [(''name'', JStr (connectionName c))])),
           s\<lparr>calls := calls s @ [DeleteOne (client c) (databaseName r) (collectionName r) (JOid (mongoId r))]\<rparr>)
      | Some d \<Rightarrow>
          (Responded (respond 204 JUndefined),
           s\<lparr>calls := calls s @ [DeleteOne (client c) (databaseName r) (collectionName r) (JOid (mongoId r))],
             collections := (collections s)
                ((client c, databaseName r, collectionName r) :=
                   remove_first (has_id (JOid (mongoId r)))
                     (collections s (client c, databaseName r, collectionName r)))\<rparr>))
   \<and> delete_document (r\<lparr>if_match := h, body := b\<rparr>) s = delete_document r s"
  using assms
  by (auto simp: delete_document_def registry_lookup_def new_ObjectId_def deleteOne_def Let_def
      issue_def remove_first_none split: option.splits)

theorem delete_document_unconditional_witness:
  "CONNECTED_CLIENTS (connected [stored_doc]) (databaseName example_request)
     = Some \<lparr>client = 0, connectionName = ''happy-cat''\<rparr>
   \<and> ObjectId_shape (mongoId example_request)
   \<and> reachable (connected [stored_doc]) 0
   \<and> delete_document example_request (connected [stored_doc]) =
       (Responded (respond 204 JUndefined),
        (connected [stored_doc])
           \<lparr>calls := [DeleteOne 0 ''shop'' ''items'' (JOid ''0123456789abcdef01234567'')],
            collections := (collections (connected [stored_doc]))((0, ''shop'', ''items'') := [])\<rparr>)
   \<and> delete_document (example_request\<lparr>if_match := Some ''stale'', body := [(''name'', JStr ''b'')]\<rparr>)
        (connected [stored_doc]) = delete_document example_request (connected [stored_doc])"
proof -
  let ?s = "connected [stored_doc]"
  let ?c = "\<lparr>client = 0, connectionName = ''happy-cat''\<rparr>"
  have h1: "CONNECTED_CLIENTS ?s (databaseName example_request) = Some ?c"
    by (simp add: connected_def example_request_def)
  have h2: "ObjectId_shape (mongoId example_request)"
    by (simp add: example_request_def example_id_def ObjectId_shape_def is_lower_hex_def)
  have h3: "reachable ?s (client ?c)"
    by (simp add: connected_def)
  note w = delete_document_unconditional
    [OF h1 h2 h3, where h = "Some ''stale''" and b = "[(''name'', JStr ''b'')]"]
  have f: "find (has_id (JOid (mongoId example_request)))
      (collections ?s (client ?c, databaseName example_request, collectionName example_request))
      = Some stored_doc"
    by (simp add: example_defs has_id_def get_prop_def)
  have r: "remove_first (has_id (JOid (mongoId example_request)))
      (collections ?s (client ?c, databaseName example_request, collectionName example_request)) = []"
    by (simp add: example_defs has_id_def get_prop_def)
  show ?thesis
  proof (intro conjI)
    show "CONNECTED_CLIENTS ?s (databaseName example_request) = Some ?c" by (rule h1)
    show "ObjectId_shape (mongoId example_request)" by (rule h2)
    show "reachable ?s 0" using h3 by simp
    show "delete_document example_request ?s =
       (Responded (respond 204 JUndefined),
        ?s\<lparr>calls := [DeleteOne 0 ''shop'' ''items'' (JOid ''0123456789abcdef01234567'')],
            collections := (collections ?s)((0, ''shop'', ''items'') := [])\<rparr>)"
      using w f r by (simp add: example_request_def example_id_def connected_def)
    show "delete_document (example_request\<lparr>if_match := Some ''stale'', body := [(''name'', JStr ''b'')]\<rparr>) ?s
        = delete_document example_request ?s"
      using w by simp
  qed
qed

section \<open>Listing a collection\<close>




text \<open>
  C10 (as amended). On a connected database, a List request whose \<open>filter\<close> parameter is
  present and not empty and is not valid URL-encoded JSON, so that \<open>decodeURIComponent\<close> or
  \<open>JSON.parse\<close> throws, is answered 500, and the state is as before: no call reaches the
  backend. An empty \<open>filter\<close> parameter is treated like an absent one.
\<close>

theorem list_invalid_filter:
  assumes "CONNECTED_CLIENTS s (databaseName r) = Some c"
    and "query_filter r = Some f" and "f \<noteq> []"
    and "decodeURIComponent P f = None \<or> (\<exists>t. decodeURIComponent P f = Some t \<and> JSON_parse P t = None)"
  shows "\<exists>res. get_collection P r s = (Responded res, s) \<and> status res = 500
           \<and> calls (snd (get_collection P r s)) = calls s"
  using assms
  by (auto simp: get_collection_def registry_lookup_def parse_filter_def falsy_def list_failed_def
      respond_def)

theorem list_invalid_filter_witness:
  "CONNECTED_CLIENTS (connected [stored_doc]) (databaseName (example_request\<lparr>query_filter := Some ''{''\<rparr>))
     = Some \<lparr>client = 0, connectionName = ''happy-cat''\<rparr>
   \<and> query_filter (example_request\<lparr>query_filter := Some ''{''\<rparr>) = Some ''{''
   \<and> ''{'' \<noteq> []
   \<and> (decodeURIComponent example_platform ''{'' = None
       \<or> (\<exists>t. decodeURIComponent example_platform ''{'' = Some t \<and> JSON_parse example_platform t = None))
   \<and> (\<exists>res. get_collection example_platform (example_request\<lparr>query_filter := Some ''{''\<rparr>)
              (connected [stored_doc]) = (Responded res, connected [stored_doc])
          \<and> status res = 500
          \<and> calls (snd (get_collection example_platform (example_request\<lparr>query_filter := Some ''{''\<rparr>)
              (connected [stored_doc]))) = calls (connected [stored_doc]))"
proof -
  let ?r = "example_request\<lparr>query_filter := Some ''{''\<rparr>"
  have h1: "CONNECTED_CLIENTS (connected [stored_doc]) (databaseName ?r)
      = Some \<lparr>client = 0, connectionName = ''happy-cat''\<rparr>"
    by (simp add: connected_def example_request_def)
  have h2: "query_filter ?r = Some ''{''"
    by simp
  have h3: "''{'' \<noteq> []"
    by simp
  have h4: "decodeURIComponent example_platform ''{'' = None
      \<or> (\<exists>t. decodeURIComponent example_platform ''{'' = Some t \<and> JSON_parse example_platform t = None)"
    by (simp add: example_platform_def)
  from h1 h2 h3 h4 list_invalid_filter [OF h1 h2 h3 h4] show ?thesis
    by blast
qed

text \<open>
  C10 as stated fails: a \<open>filter\<close> parameter that is present and empty (\<open>?filter=\<close>) is not
  valid JSON, but the code tests \<open>filter ? \<dots> : \<dots>\<close>, takes the default configuration, queries
  the backend and answers 200.
\<close>

theorem empty_filter_counterexample:
  "query_filter (example_request\<lparr>query_filter := Some []\<rparr>) = Some []
   \<and> decodeURIComponent example_platform [] = Some []
   \<and> JSON_parse example_platform [] = None
   \<and> get_collection example_platform (example_request\<lparr>query_filter := Some []\<rparr>) (connected [stored_doc])
     = (Responded (respond 200 (JObj [(''items'', JArr [JObj stored_doc]), (''count'', JNum 1)])),
        (connected [stored_doc])
          \<lparr>calls := [Find 0 ''shop'' ''items'' (JObj []) (JObj [])
                       (JObj [(''limit'', JNum 0), (''skip'', JNum 0)])]\<rparr>)"
  by (simp add: handler_defs driver_defs example_defs obj_eval parseInt_or_0_def parseInt10_def
      js_whitespace_def parse_digits_def is_digit_def)

end
